theory Spec2Isabelle
  imports Complex_Main "HOL-Library.Sublist" "HOL-Library.Log_Nat"
begin

section \<open>Python strings\<close>

text \<open>
  A Python \<open>str\<close> is a sequence of code points. A \<^typ>\<open>char\<close> stands for the code point
  with the same number, so the model covers the code points U+0000 to U+00FF; the three
  tables below are Python's \<open>str.isspace\<close>, \<open>str.isalnum\<close> and \<open>str.lower\<close> on that range.
  Code points above U+00FF are outside the model.
\<close>

definition isspace :: "char \<Rightarrow> bool" where
  "isspace c = (let n = (of_char c :: nat) in
     (9 \<le> n \<and> n \<le> 13) \<or> (28 \<le> n \<and> n \<le> 32) \<or> n = 133 \<or> n = 160)"

definition isalnum :: "char \<Rightarrow> bool" where
  "isalnum c = (let n = (of_char c :: nat) in
     (48 \<le> n \<and> n \<le> 57) \<or> (65 \<le> n \<and> n \<le> 90) \<or> (97 \<le> n \<and> n \<le> 122) \<or>
     n = 170 \<or> n = 178 \<or> n = 179 \<or> n = 181 \<or> n = 185 \<or> n = 186 \<or>
     (188 \<le> n \<and> n \<le> 190) \<or> (192 \<le> n \<and> n \<le> 214) \<or> (216 \<le> n \<and> n \<le> 246) \<or>
     (248 \<le> n \<and> n \<le> 255))"

definition lower_char :: "char \<Rightarrow> char" where
  "lower_char c = (let n = (of_char c :: nat) in
     if (65 \<le> n \<and> n \<le> 90) \<or> (192 \<le> n \<and> n \<le> 214) \<or> (216 \<le> n \<and> n \<le> 222)
     then char_of (n + 32) else c)"

definition lower :: "string \<Rightarrow> string" where
  "lower s = map lower_char s"

text \<open>\<open>s.strip()\<close>: whitespace removed at both ends.\<close>

definition strip :: "string \<Rightarrow> string" where
  "strip s = rev (dropWhile isspace (rev (dropWhile isspace s)))"

text \<open>
  \<open>s.split()\<close> with no argument: the maximal runs of non-whitespace characters, in order;
  no empty string is produced.
\<close>

fun split :: "string \<Rightarrow> string list" where
  "split [] = []"
| "split (c # cs) =
     (if isspace c then split cs
      else if cs \<noteq> [] \<and> \<not> isspace (hd cs)
        then (case split cs of [] \<Rightarrow> [[c]] | w # ws \<Rightarrow> (c # w) # ws)
        else [c] # split cs)"

text \<open>\<open>sep.join(ws)\<close>.\<close>

fun str_join :: "string \<Rightarrow> string list \<Rightarrow> string" where
  "str_join sep [] = []"
| "str_join sep [w] = w"
| "str_join sep (w # v # ws) = w @ sep @ str_join sep (v # ws)"

text \<open>\<open>needle in haystack\<close> on strings: the needle occurs as a contiguous piece.\<close>

fun contains :: "string \<Rightarrow> string \<Rightarrow> bool" where
  "contains needle [] = (needle = [])"
| "contains needle (c # cs) = (prefix needle (c # cs) \<or> contains needle cs)"

text \<open>\<open>d.get(k, default)\<close> on a key that may be absent.\<close>

definition dict_get :: "'a option \<Rightarrow> 'a \<Rightarrow> 'a" where
  "dict_get v d = (case v of None \<Rightarrow> d | Some x \<Rightarrow> x)"

section \<open>Job postings\<close>

text \<open>
  A job is a Python dictionary; every key the pipeline reads or writes is a field, absent
  keys are \<open>None\<close>. The values have the types the adapters produce (strings, lists of
  strings) and the pipeline adds (integer scores, the combined score as an exact rational).
  Keys outside this list, which an adapter may add, are kept in \<open>extra\<close>.
\<close>

record job =
  title :: "string option"
  company :: "string option"
  location :: "string option"
  link :: "string option"
  date_posted :: "string option"
  source :: "string option"
  description :: "string option"
  salary :: "string option"
  job_type :: "string option"
  experience_level :: "string option"
  skills :: "string list option"
  scraped_at :: "string option"
  relevance_score :: "int option"
  match_score :: "int option"
  combined_score :: "rat option"
  ai_score :: "int option"
  matching_skills :: "string list option"
  missing_skills :: "string list option"
  added_at :: "string option"
  extra :: "(string \<times> string) list"

definition empty_job :: job where
  "empty_job = \<lparr> title = None, company = None, location = None, link = None,
     date_posted = None, source = None, description = None, salary = None,
     job_type = None, experience_level = None, skills = None, scraped_at = None,
     relevance_score = None, match_score = None, combined_score = None, ai_score = None,
     matching_skills = None, missing_skills = None, added_at = None, extra = [] \<rparr>"

section \<open>Identity keys (utils/helpers.py, scrapers/__init__.py)\<close>

text \<open>
  \<open>''.join(c.lower() for c in s if c.isalnum() or c.isspace())\<close> followed by
  \<open>' '.join(s.split())\<close>, as \<open>_normalize_job_key\<close> applies to the title and to the company.
\<close>

definition keep_alnum_space :: "string \<Rightarrow> string" where
  "keep_alnum_space s = map lower_char (filter (\<lambda>c. isalnum c \<or> isspace c) s)"

definition normalize_field :: "string \<Rightarrow> string" where
  "normalize_field s = str_join '' '' (split (keep_alnum_space s))"

definition normalize_job_key :: "string \<Rightarrow> string \<Rightarrow> string" where
  "normalize_job_key t c = normalize_field t @ ''|'' @ normalize_field c"

text \<open>
  \<open>JobScraperManager._job_key\<close>: lower-case and strip first, then keep the alphanumeric and
  whitespace characters; whitespace inside the text is left as it is.
\<close>

definition job_key :: "job \<Rightarrow> string" where
  "job_key j =
     (let t = strip (lower (dict_get (title j) ''''));
          c = strip (lower (dict_get (company j) ''''));
          t' = filter (\<lambda>ch. isalnum ch \<or> isspace ch) t;
          c' = filter (\<lambda>ch. isalnum ch \<or> isspace ch) c
      in t' @ ''|'' @ c')"

section \<open>Deduplication (utils/helpers.py)\<close>

fun existing_keys_loop :: "(string \<times> string) list \<Rightarrow> string set \<Rightarrow> string set" where
  "existing_keys_loop [] existing_keys = existing_keys"
| "existing_keys_loop ((t, c) # rest) existing_keys =
     existing_keys_loop rest (insert (normalize_job_key t c) existing_keys)"

definition key_of :: "job \<Rightarrow> string" where
  "key_of j = normalize_job_key (dict_get (title j) '''') (dict_get (company j) '''')"

fun dedup_loop :: "job list \<Rightarrow> string set \<Rightarrow> string set \<Rightarrow> job list \<Rightarrow> job list" where
  "dedup_loop [] existing_keys seen_in_batch unique_jobs = unique_jobs"
| "dedup_loop (j # js) existing_keys seen_in_batch unique_jobs =
     (let key = key_of j in
      if key \<notin> existing_keys \<and> key \<notin> seen_in_batch
      then dedup_loop js existing_keys (insert key seen_in_batch) (unique_jobs @ [j])
      else dedup_loop js existing_keys seen_in_batch unique_jobs)"

definition deduplicate_jobs :: "job list \<Rightarrow> (string \<times> string) list \<Rightarrow> job list" where
  "deduplicate_jobs new_jobs existing_jobs =
     dedup_loop new_jobs (existing_keys_loop existing_jobs {}) {} []"

text \<open>
  The positions of the batch that deduplication keeps: the posting's key is not blocked and
  no earlier posting of the batch has the same key.
\<close>

definition kept_index :: "job list \<Rightarrow> string set \<Rightarrow> nat \<Rightarrow> bool" where
  "kept_index js blocked i \<longleftrightarrow>
     i < length js \<and> key_of (js ! i) \<notin> blocked \<and> (\<forall>m<i. key_of (js ! m) \<noteq> key_of (js ! i))"

definition first_occurrence :: "job list \<Rightarrow> (string \<times> string) list \<Rightarrow> nat \<Rightarrow> bool" where
  "first_occurrence new_jobs existing_jobs i \<longleftrightarrow>
     i < length new_jobs \<and>
     (\<forall>(t, c) \<in> set existing_jobs. key_of (new_jobs ! i) \<noteq> normalize_job_key t c) \<and>
     (\<forall>m < i. key_of (new_jobs ! m) \<noteq> key_of (new_jobs ! i))"

text \<open>A small batch: two spellings of one posting, an already stored posting, a new one.\<close>

definition jA :: job where
  "jA = empty_job\<lparr>title := Some ''ML Engineer'', company := Some ''Acme''\<rparr>"

definition jB :: job where
  "jB = empty_job\<lparr>title := Some ''ml  engineer!'', company := Some ''ACME'', source := Some ''x''\<rparr>"

definition jC :: job where
  "jC = empty_job\<lparr>title := Some ''Data Scientist'', company := Some ''Beta''\<rparr>"

definition jD :: job where
  "jD = empty_job\<lparr>title := Some ''NLP Engineer'', company := Some ''Old Co''\<rparr>"

definition ex_batch :: "job list" where
  "ex_batch = [jA, jB, jD, jC]"

definition ex_existing :: "(string \<times> string) list" where
  "ex_existing = [(''nlp engineer'', ''old co'')]"

text \<open>The two spellings of one posting that the specification gives as its example.\<close>

definition job_spaced :: job where
  "job_spaced = empty_job\<lparr>title := Some '' ML Engineer '', company := Some ''Tech-Co''\<rparr>"

definition job_plain :: job where
  "job_plain = empty_job\<lparr>title := Some ''ml engineer'', company := Some ''techco''\<rparr>"

section \<open>Adapter standardization (scrapers/base.py)\<close>

text \<open>
  \<open>BaseScraper._standardize_job\<close>. The class constant \<open>SOURCE_NAME\<close> and the two readings of
  the clock (\<open>today\<close> for \<open>strftime('%Y-%m-%d')\<close>, \<open>now\<close> for \<open>isoformat()\<close>) are parameters.
  An argument that may be \<open>None\<close> is an option. The keyword arguments collected in \<open>extra\<close>
  cannot carry the name of a parameter, so of the keys written before \<open>**extra\<close> they can
  replace only \<open>source\<close> and \<open>scraped_at\<close>.
\<close>

definition standardize_job ::
  "string \<Rightarrow> string \<Rightarrow> string \<Rightarrow>
   string option \<Rightarrow> string option \<Rightarrow> string option \<Rightarrow> string option \<Rightarrow>
   string option \<Rightarrow> string option \<Rightarrow> string \<Rightarrow> string \<Rightarrow> string \<Rightarrow>
   string list option \<Rightarrow> (string \<times> string) list \<Rightarrow> job" where
  "standardize_job SOURCE_NAME today now title_arg company_arg location_arg link_arg
       date_posted_arg description_arg salary_arg job_type_arg experience_level_arg
       skills_arg extra_arg =
     \<lparr> title = Some (case title_arg of None \<Rightarrow> ''Unknown''
                      | Some t \<Rightarrow> if t \<noteq> [] then strip t else ''Unknown''),
       company = Some (case company_arg of None \<Rightarrow> ''Unknown''
                      | Some c \<Rightarrow> if c \<noteq> [] then strip c else ''Unknown''),
       location = Some (case location_arg of None \<Rightarrow> ''Remote''
                      | Some l \<Rightarrow> if l \<noteq> [] then strip l else ''Remote''),
       link = Some (case link_arg of None \<Rightarrow> []
                      | Some l \<Rightarrow> if l \<noteq> [] then strip l else []),
       date_posted = Some (case date_posted_arg of None \<Rightarrow> today
                      | Some d \<Rightarrow> if d \<noteq> [] then d else today),
       source = Some (case map_of extra_arg ''source'' of None \<Rightarrow> SOURCE_NAME | Some v \<Rightarrow> v),
       description = Some (case description_arg of None \<Rightarrow> []
                      | Some d \<Rightarrow> if d \<noteq> [] then take 1000 d else []),
       salary = Some salary_arg,
       job_type = Some job_type_arg,
       experience_level = Some experience_level_arg,
       skills = Some (case skills_arg of None \<Rightarrow> [] | Some ss \<Rightarrow> ss),
       scraped_at = Some (case map_of extra_arg ''scraped_at'' of None \<Rightarrow> now | Some v \<Rightarrow> v),
       relevance_score = None, match_score = None, combined_score = None, ai_score = None,
       matching_skills = None, missing_skills = None, added_at = None,
       extra = filter (\<lambda>(k, v). k \<noteq> ''source'' \<and> k \<noteq> ''scraped_at'') extra_arg \<rparr>"

section \<open>Relevance scorer: keyword fallback (llm/job_scorer.py)\<close>

definition HIGH_RELEVANCE :: "string list" where
  "HIGH_RELEVANCE =
     [''machine learning engineer'', ''ml engineer'', ''ai engineer'',
      ''deep learning engineer'', ''data scientist'', ''research scientist'',
      ''applied scientist'', ''nlp engineer'', ''computer vision engineer'',
      ''mlops engineer'', ''ml platform'', ''ai researcher'', ''llm engineer'']"

definition MEDIUM_RELEVANCE :: "string list" where
  "MEDIUM_RELEVANCE =
     [''data engineer'', ''ml '', '' ml'', '' ai '', ''ai '', ''analytics engineer'',
      ''research engineer'', ''quantitative'', ''machine learning'',
      ''artificial intelligence'', ''neural network'', ''deep learning'']"

definition LOW_RELEVANCE :: "string list" where
  "LOW_RELEVANCE =
     [''data analyst'', ''business intelligence'', ''python developer'',
      ''backend engineer'', ''software engineer'', ''full stack'']"

text \<open>
  One tier of \<open>_fallback_score\<close>: \<open>for keyword in KEYWORDS: if keyword in combined: return v\<close>.
  \<open>None\<close> means that the loop ended without returning.
\<close>

fun keyword_loop :: "string list \<Rightarrow> string \<Rightarrow> int \<Rightarrow> int option" where
  "keyword_loop [] combined v = None"
| "keyword_loop (keyword # rest) combined v =
     (if contains keyword combined then Some v else keyword_loop rest combined v)"

definition combined_text :: "job \<Rightarrow> string" where
  "combined_text j =
     lower (dict_get (title j) []) @ '' '' @ lower (dict_get (description j) [])"

definition fallback_score :: "job \<Rightarrow> int" where
  "fallback_score j =
     (let combined = combined_text j in
      case keyword_loop HIGH_RELEVANCE combined 9 of
        Some v \<Rightarrow> v
      | None \<Rightarrow>
         (case keyword_loop MEDIUM_RELEVANCE combined 7 of
            Some v \<Rightarrow> v
          | None \<Rightarrow>
             (case keyword_loop LOW_RELEVANCE combined 5 of
                Some v \<Rightarrow> v
              | None \<Rightarrow> 3)))"

text \<open>Postings used to evaluate the scorer.\<close>

definition job_ml :: job where
  "job_ml = empty_job\<lparr>title := Some ''Senior ML Engineer'', company := Some ''Acme'',
     description := Some ''Build models''\<rparr>"

definition job_data_eng :: job where
  "job_data_eng = empty_job\<lparr>title := Some ''Data Engineer'',
     description := Some ''Pipelines for a software engineer team''\<rparr>"

definition job_backend :: job where
  "job_backend = empty_job\<lparr>title := Some ''Backend Engineer'', description := Some ''APIs''\<rparr>"

definition job_marketing :: job where
  "job_marketing = empty_job\<lparr>title := Some ''Marketing Manager'',
     description := Some ''Brand strategy''\<rparr>"

section \<open>Relevance scorer: inference response (llm/job_scorer.py)\<close>

text \<open>
  The exceptions of Python that the scorer can meet, and the values \<open>json.loads\<close> can
  return. A float is an exact rational, an infinity or a NaN. A JSON object is an
  association list with distinct keys.
\<close>

datatype py_error = TypeError | ValueError | OverflowError | KeyError

datatype pyfloat = Finite rat | PosInf | NegInf | NaN

datatype json =
    JNull
  | JBool bool
  | JInt int
  | JFloat pyfloat
  | JStr string
  | JList "json list"
  | JDict "(string \<times> json) list"

definition is_digit :: "char \<Rightarrow> bool" where
  "is_digit c = (let n = (of_char c :: nat) in 48 \<le> n \<and> n \<le> 57)"

text \<open>\<open>\w\<close> of the \<open>re\<close> module on \<open>str\<close> patterns: alphanumeric or underscore.\<close>

definition is_word :: "char \<Rightarrow> bool" where
  "is_word c = (isalnum c \<or> c = CHR ''_'')"

text \<open>The value of a run of decimal digits, most significant digit first.\<close>

definition digits_to_int :: "string \<Rightarrow> int" where
  "digits_to_int ds = foldl (\<lambda>acc d. 10 * acc + (int (of_char d) - 48)) 0 ds"

text \<open>
  \<open>int(s)\<close> on a string: whitespace around, an optional sign, then decimal digits with
  single underscores between digits; anything else is a \<open>ValueError\<close>. (The whitespace
  \<open>int\<close> removes is not that of \<open>str.isspace\<close>: U+001C to U+001F stay.)
\<close>

definition int_space :: "char \<Rightarrow> bool" where
  "int_space c = (let n = (of_char c :: nat) in (9 \<le> n \<and> n \<le> 13) \<or> n = 32 \<or> n = 133 \<or> n = 160)"

fun valid_int_body :: "string \<Rightarrow> bool" where
  "valid_int_body [] = False"
| "valid_int_body [c] = is_digit c"
| "valid_int_body (c # d # r) =
     (is_digit c \<and> (if d = CHR ''_'' then valid_int_body r else valid_int_body (d # r)))"

definition int_of_str :: "string \<Rightarrow> py_error + int" where
  "int_of_str s =
     (let t = rev (dropWhile int_space (rev (dropWhile int_space s)));
          neg = (t \<noteq> [] \<and> hd t = CHR ''-'');
          body = (if t \<noteq> [] \<and> (hd t = CHR ''-'' \<or> hd t = CHR ''+'') then tl t else t)
      in if valid_int_body body
         then Inr ((if neg then -1 else 1) * digits_to_int (filter (\<lambda>c. c \<noteq> CHR ''_'') body))
         else Inl ValueError)"

text \<open>\<open>int(v)\<close> on a value decoded from JSON.\<close>

fun py_int :: "json \<Rightarrow> py_error + int" where
  "py_int (JInt n) = Inr n"
| "py_int (JBool b) = Inr (if b then 1 else 0)"
| "py_int (JFloat (Finite q)) = Inr (if 0 \<le> q then \<lfloor>q\<rfloor> else \<lceil>q\<rceil>)"
| "py_int (JFloat PosInf) = Inl OverflowError"
| "py_int (JFloat NegInf) = Inl OverflowError"
| "py_int (JFloat NaN) = Inl ValueError"
| "py_int (JStr s) = int_of_str s"
| "py_int JNull = Inl TypeError"
| "py_int (JList xs) = Inl TypeError"
| "py_int (JDict kvs) = Inl TypeError"

text \<open>Truth value of a decoded value, as \<open>if result and ...\<close> tests it.\<close>

fun truthy :: "json \<Rightarrow> bool" where
  "truthy JNull = False"
| "truthy (JBool b) = b"
| "truthy (JInt n) = (n \<noteq> 0)"
| "truthy (JFloat (Finite q)) = (q \<noteq> 0)"
| "truthy (JFloat f) = True"
| "truthy (JStr s) = (s \<noteq> [])"
| "truthy (JList xs) = (xs \<noteq> [])"
| "truthy (JDict kvs) = (kvs \<noteq> [])"

text \<open>\<open>'score' in result\<close>: key of a dict, element of a list, substring of a string;
  a number or a boolean is not iterable.\<close>

fun py_in :: "string \<Rightarrow> json \<Rightarrow> py_error + bool" where
  "py_in k (JDict kvs) = Inr (k \<in> set (map fst kvs))"
| "py_in k (JList xs) = Inr (JStr k \<in> set xs)"
| "py_in k (JStr s) = Inr (contains k s)"
| "py_in k v = Inl TypeError"

text \<open>\<open>result['score']\<close>: only a dict can be indexed by a string.\<close>

fun py_getitem :: "json \<Rightarrow> string \<Rightarrow> py_error + json" where
  "py_getitem (JDict kvs) k = (case map_of kvs k of None \<Rightarrow> Inl KeyError | Some v \<Rightarrow> Inr v)"
| "py_getitem v k = Inl TypeError"

text \<open>
  The regular expression \<open>"score"\s*:\s*(\d+)\<close> matched at the start of a text: the digits
  of group 1, if it matches there.
\<close>

definition score_key :: string where
  \<open>score_key = ''"score"''\<close>

definition score_field_here :: "string \<Rightarrow> string option" where
  "score_field_here s =
     (if prefix score_key s
      then (case dropWhile isspace (drop 7 s) of
              [] \<Rightarrow> None
            | c # r \<Rightarrow>
                if c = CHR '':''
                then (let ds = takeWhile is_digit (dropWhile isspace r)
                      in if ds = [] then None else Some ds)
                else None)
      else None)"

text \<open>\<open>re.search(r'"score"\s*:\s*(\d+)', response)\<close>: group 1 of the leftmost match.\<close>

fun search_score_field :: "string \<Rightarrow> string option" where
  "search_score_field [] = None"
| "search_score_field (c # cs) =
     (case score_field_here (c # cs) of
        Some ds \<Rightarrow> Some ds
      | None \<Rightarrow> search_score_field cs)"

text \<open>
  \<open>re.search(r'\{[^{}]*"score"\s*:\s*(\d+)[^{}]*\}', response, re.DOTALL)\<close>: group 0 of the
  leftmost match. Nothing the pattern matches between the braces is a brace, so a match
  that starts at an opening brace ends at the next brace, which has to be a closing one,
  and the text between them has to contain the score field.
\<close>

definition not_brace :: "char \<Rightarrow> bool" where
  "not_brace c = (c \<noteq> CHR ''{'' \<and> c \<noteq> CHR ''}'')"

fun search_json_object :: "string \<Rightarrow> string option" where
  "search_json_object [] = None"
| "search_json_object (c # cs) =
     (if c = CHR ''{''
         \<and> dropWhile not_brace cs \<noteq> [] \<and> hd (dropWhile not_brace cs) = CHR ''}''
         \<and> search_score_field (takeWhile not_brace cs) \<noteq> None
      then Some (CHR ''{'' # takeWhile not_brace cs @ ''}'')
      else search_json_object cs)"

text \<open>
  \<open>re.findall(r'\b([1-9]|10)\b', response)[0]\<close>: the first standalone number from 1 to 10.
  \<open>prev\<close> tells whether the character before the current position is a word character.
\<close>

definition is_1_to_9 :: "char \<Rightarrow> bool" where
  "is_1_to_9 c = (let n = (of_char c :: nat) in 49 \<le> n \<and> n \<le> 57)"

fun find_number :: "bool \<Rightarrow> string \<Rightarrow> int option" where
  "find_number prev [] = None"
| "find_number prev (c # cs) =
     (if \<not> prev \<and> is_1_to_9 c \<and> (cs = [] \<or> \<not> is_word (hd cs))
      then Some (int (of_char c) - 48)
      else if \<not> prev \<and> c = CHR ''1'' \<and> cs \<noteq> [] \<and> hd cs = CHR ''0''
              \<and> (tl cs = [] \<or> \<not> is_word (hd (tl cs)))
      then Some 10
      else find_number (is_word c) cs)"

text \<open>
  \<open>_parse_llm_response\<close>. The decoder \<open>json.loads\<close> of the standard library is the
  parameter \<open>loads\<close>; \<open>None\<close> is its \<open>JSONDecodeError\<close>. The result \<open>None\<close> of the function
  is Python's \<open>None\<close>.
\<close>

definition parse_llm_response :: "(string \<Rightarrow> json option) \<Rightarrow> string \<Rightarrow> json option" where
  "parse_llm_response loads response =
     (if response = [] then None
      else case loads response of
        Some v \<Rightarrow> Some v
      | None \<Rightarrow>
         (case (case search_json_object response of
                  None \<Rightarrow> None
                | Some g \<Rightarrow> loads g) of
            Some v \<Rightarrow> Some v
          | None \<Rightarrow>
             (case search_score_field response of
                Some ds \<Rightarrow>
                  Some (JDict [(''score'', JInt (digits_to_int ds)),
                               (''reason'', JStr ''Extracted from response'')])
              | None \<Rightarrow>
                 (case find_number False response of
                    Some n \<Rightarrow>
                      Some (JDict [(''score'', JInt n), (''reason'', JStr ''Number extracted'')])
                  | None \<Rightarrow> None))))"

text \<open>
  \<open>score_relevance\<close>. \<open>response\<close> is what \<open>_call_ollama\<close> returned for the prompt: \<open>None\<close>
  on a failure or a timeout, else the stripped output. An exception leaves the function
  as \<open>Inl\<close>: nothing in it catches one.
\<close>

definition score_relevance ::
  "(string \<Rightarrow> json option) \<Rightarrow> string option \<Rightarrow> job \<Rightarrow> py_error + int" where
  "score_relevance loads response j =
     (case response of
        None \<Rightarrow> Inr (fallback_score j)
      | Some r \<Rightarrow>
          if r = [] then Inr (fallback_score j)
          else (case parse_llm_response loads r of
                  None \<Rightarrow> Inr (fallback_score j)
                | Some result \<Rightarrow>
                    if \<not> truthy result then Inr (fallback_score j)
                    else (case py_in ''score'' result of
                            Inl e \<Rightarrow> Inl e
                          | Inr False \<Rightarrow> Inr (fallback_score j)
                          | Inr True \<Rightarrow>
                              (case py_getitem result ''score'' of
                                 Inl e \<Rightarrow> Inl e
                               | Inr v \<Rightarrow>
                                   (case py_int v of
                                      Inl e \<Rightarrow> Inl e
                                    | Inr n \<Rightarrow> Inr (max 1 (min 10 n)))))))"

text \<open>
  A decoder that knows two texts, with the values \<open>json.loads\<close> gives for them: an object
  whose score is a word, and a bare number.
\<close>

definition response_high :: string where
  \<open>response_high = ''{"score": "high"}''\<close>

definition loads_two :: "string \<Rightarrow> json option" where
  "loads_two s =
     (if s = response_high then Some (JDict [(''score'', JStr ''high'')])
      else if s = ''7'' then Some (JInt 7)
      else None)"

section \<open>Profile matcher: keyword fallback (llm/resume_matcher.py)\<close>

text \<open>
  \<open>SKILL_PATTERNS\<close>, category by category. Every pattern is a literal text; the one
  pattern written with escapes, \<open>c\+\+\<close>, matches the text \<open>c++\<close> and names the skill \<open>c++\<close>,
  so each entry is both the text searched for and the name of the skill.
\<close>

definition SKILL_PATTERNS :: "string list" where
  "SKILL_PATTERNS =
     [''python'', ''r'', ''java'', ''scala'', ''julia'', ''c++'', ''c#'', ''javascript'',
      ''typescript'', ''go'', ''golang'', ''rust'', ''sql'', ''bash'', ''shell'', ''matlab'',
      ''kotlin'', ''swift'', ''ruby'', ''php'', ''perl'',
      ''tensorflow'', ''pytorch'', ''keras'', ''scikit-learn'', ''sklearn'', ''xgboost'',
      ''lightgbm'', ''catboost'', ''jax'', ''mxnet'', ''paddle'', ''huggingface'',
      ''transformers'', ''spacy'', ''nltk'', ''gensim'', ''fastai'',
      ''machine learning'', ''deep learning'', ''neural network'', ''cnn'', ''rnn'',
      ''lstm'', ''transformer'', ''attention'', ''bert'', ''gpt'', ''llm'',
      ''reinforcement learning'', ''supervised learning'', ''unsupervised'',
      ''computer vision'', ''nlp'', ''natural language'', ''speech recognition'',
      ''recommendation system'', ''time series'', ''anomaly detection'',
      ''pandas'', ''numpy'', ''scipy'', ''dask'', ''ray'', ''polars'', ''spark'',
      ''pyspark'', ''hadoop'', ''hive'', ''presto'', ''airflow'', ''dagster'',
      ''prefect'', ''dbt'', ''great expectations'',
      ''aws'', ''amazon web services'', ''azure'', ''gcp'', ''google cloud'',
      ''sagemaker'', ''vertex ai'', ''azure ml'', ''databricks'', ''snowflake'',
      ''bigquery'', ''redshift'', ''s3'', ''ec2'', ''lambda'',
      ''mlflow'', ''kubeflow'', ''mlops'', ''model deployment'', ''model serving'',
      ''docker'', ''kubernetes'', ''k8s'', ''ci/cd'', ''github actions'', ''jenkins'',
      ''terraform'', ''ansible'', ''model monitoring'', ''feature store'',
      ''postgresql'', ''postgres'', ''mysql'', ''mongodb'', ''redis'', ''cassandra'',
      ''elasticsearch'', ''neo4j'', ''pinecone'', ''weaviate'', ''milvus'',
      ''chromadb'', ''qdrant'', ''faiss'',
      ''git'', ''linux'', ''unix'', ''jupyter'', ''notebook'', ''vscode'',
      ''wandb'', ''weights & biases'', ''tensorboard'', ''grafana'', ''prometheus'',
      ''api'', ''rest'', ''graphql'', ''fastapi'', ''flask'', ''django'']"

text \<open>
  \<open>re.search(rf'\b{pattern}\b', text)\<close> for a literal, non-empty pattern: the pattern occurs
  with a word boundary on each side. \<open>prev\<close> tells whether the character before the
  current position is a word character.
\<close>

definition word_match_here :: "string \<Rightarrow> bool \<Rightarrow> string \<Rightarrow> bool" where
  "word_match_here pattern prev text =
     (prefix pattern text
      \<and> prev \<noteq> is_word (hd pattern)
      \<and> is_word (last pattern)
          \<noteq> (drop (length pattern) text \<noteq> [] \<and> is_word (hd (drop (length pattern) text))))"

fun word_search :: "string \<Rightarrow> bool \<Rightarrow> string \<Rightarrow> bool" where
  "word_search pattern prev [] = False"
| "word_search pattern prev (c # cs) =
     (word_match_here pattern prev (c # cs) \<or> word_search pattern (is_word c) cs)"

definition extract_skills_from_text :: "string \<Rightarrow> string set" where
  "extract_skills_from_text text =
     set (filter (\<lambda>pattern. word_search pattern False (lower text)) SKILL_PATTERNS)"

text \<open>The result dictionary of the matcher; a key the inference answer leaves out is \<open>None\<close>.\<close>

record match_result =
  m_match_score :: "int option"
  m_matching_skills :: "string list option"
  m_missing_skills :: "string list option"
  m_match_summary :: "string option"

text \<open>Decimal text of a natural number, for the summary line.\<close>

fun show_nat :: "nat \<Rightarrow> string" where
  "show_nat n =
     (if n < 10 then [char_of (48 + n)] else show_nat (n div 10) @ [char_of (48 + n mod 10)])"

text \<open>
  The skills of a posting as \<open>_keyword_match\<close> collects them: those found in the lower-cased
  title and description, and the lower-cased entries of the posting's own skill list.
\<close>

definition job_skills :: "job \<Rightarrow> string set" where
  "job_skills j =
     (let job_text = lower (dict_get (title j) [] @ '' '' @ dict_get (description j) []);
          found = extract_skills_from_text job_text
      in case skills j of
           None \<Rightarrow> found
         | Some ss \<Rightarrow> if ss \<noteq> [] then found \<union> set (map lower ss) else found)"

text \<open>
  \<open>_keyword_match\<close>. \<open>user_skills\<close> is the profile's skill set. The order in which Python
  lists a set is not specified: it is the parameter \<open>set_order\<close>. The ratio is computed
  exactly; \<open>int\<close> of a non-negative number is its floor.
\<close>

definition keyword_match ::
  "(string set \<Rightarrow> string list) \<Rightarrow> string set \<Rightarrow> job \<Rightarrow> match_result" where
  "keyword_match set_order user_skills j =
     (let js = job_skills j;
          matching = user_skills \<inter> js;
          missing = js - user_skills;
          score =
            (if js = {} then 5
             else (let match_percentage = (of_nat (card matching) :: rat) / of_nat (card js)
                   in min 10 (max 1 (\<lfloor>match_percentage * 10\<rfloor> + 2))))
      in \<lparr> m_match_score = Some score,
           m_matching_skills = Some (take 10 (set_order matching)),
           m_missing_skills = Some (take 10 (set_order missing)),
           m_match_summary =
             Some (''Matched '' @ show_nat (card matching) @ ''/'' @ show_nat (card js)
                   @ '' required skills'') \<rparr>)"

text \<open>
  The score as the specification words it: the clamp to 1..10 of the floor of ten times the
  overlap ratio, plus 2; and 5 when the posting has no skill.
\<close>

definition clamp :: "int \<Rightarrow> int \<Rightarrow> int \<Rightarrow> int" where
  "clamp lo hi x = max lo (min hi x)"

definition spec_match_score :: "nat \<Rightarrow> nat \<Rightarrow> int" where
  "spec_match_score n_matching n_job_skills =
     (if n_job_skills = 0 then 5
      else clamp 1 10 (\<lfloor>(of_nat n_matching :: rat) / of_nat n_job_skills * 10\<rfloor> + 2))"

text \<open>
  A posting that names its skills in its skill list and has no title and no description,
  and two profiles, the second containing the first.
\<close>

definition job_pytorch :: job where
  "job_pytorch =
     empty_job\<lparr>skills := Some [''Python'', ''PyTorch'', ''AWS'', ''Docker'', ''MLOps'']\<rparr>"

definition profile_small :: "string set" where
  "profile_small = {''python'', ''sql''}"

definition profile_large :: "string set" where
  "profile_large = {''python'', ''sql'', ''pytorch'', ''aws'', ''docker''}"

definition sorted_order :: "string set \<Rightarrow> string list" where
  "sorted_order S = filter (\<lambda>s. s \<in> S) SKILL_PATTERNS"

section \<open>Scoring, matching, filtering and ranking (main.py)\<close>

text \<open>
  The two thresholds that \<open>process_jobs_with_ai\<close> reads from the configuration:
  \<open>min_relevance_score\<close> is an \<open>int\<close>, \<open>min_combined_score\<close> a \<open>float\<close>, which
  \<open>float(os.getenv(...))\<close> can also make an infinity or a NaN.
\<close>

record config =
  min_relevance_score :: int
  min_combined_score :: pyfloat

subsection \<open>Floating-point arithmetic\<close>

text \<open>
  \<open>round(x)\<close> on a finite float: the nearest integer, a tie going to the even one.
\<close>

definition py_round :: "rat \<Rightarrow> int" where
  "py_round q =
     (let f = \<lfloor>q\<rfloor>; d = q - of_int f
      in if d < 1 / 2 then f
         else if 1 / 2 < d then f + 1
         else if even f then f else f + 1)"

text \<open>
  A finite float of Python is a binary64 number, here the rational number it stands for.
  \<open>binade q\<close> is the exponent \<open>e\<close> with \<open>2^e \<le> |q| < 2^(e+1)\<close>, and \<open>fl q\<close> is \<open>q\<close> rounded to 53
  significant binary digits, a tie going to the even significand: the result of an
  operation whose exact value is \<open>q\<close>, as long as it is below \<open>2^1024\<close> in magnitude and not
  in the subnormal range (no value computed here is; the smallest non-zero one is a
  multiple of \<open>2^-54\<close>).
\<close>

definition binade :: "rat \<Rightarrow> int" where
  "binade q =
     (let (a, b) = quotient_of \<bar>q\<bar>;
          d = bitlen a - bitlen b
      in if 2 powi d \<le> \<bar>q\<bar> then d else d - 1)"

definition fl :: "rat \<Rightarrow> rat" where
  "fl q = (if q = 0 then 0
           else (let u = 2 powi (binade q - 52) in of_int (py_round (q / u)) * u))"

text \<open>A rounded value is in the range of the finite floats when it is below \<open>2^1024\<close> in
  magnitude, that is, when its exponent is at most 1023.\<close>

definition in_float_range :: "rat \<Rightarrow> bool" where
  "in_float_range x = (x = 0 \<or> binade x < 1024)"

text \<open>
  The conversion of an \<open>int\<close> operand to a float, which raises \<open>OverflowError\<close> when the
  rounded value is out of range.
\<close>

definition float_of_int :: "int \<Rightarrow> py_error + rat" where
  "float_of_int n =
     (let x = fl (of_int n) in if in_float_range x then Inr x else Inl OverflowError)"

text \<open>
  \<open>(relevance_score * 0.4) + (match_score * 0.6)\<close> on two \<open>int\<close> scores. The literals are the
  floats nearest to 2/5 and 3/5. The products cannot overflow; the sum can, to an
  infinity, and then \<open>round(combined_score)\<close> raises \<open>OverflowError\<close>, after the score keys of
  the posting were set; the \<open>except\<close> branch sets all of them again or drops the posting.
  So \<open>Inl\<close> stands for: an exception is raised before the test against the minimum.
\<close>

definition combined_float :: "int \<Rightarrow> int \<Rightarrow> py_error + rat" where
  "combined_float relevance match_v =
     (case float_of_int relevance of
        Inl e \<Rightarrow> Inl e
      | Inr r \<Rightarrow>
          (case float_of_int match_v of
             Inl e \<Rightarrow> Inl e
           | Inr m \<Rightarrow>
               (let x = fl (fl (r * fl (2 / 5)) + fl (m * fl (3 / 5)))
                in if in_float_range x then Inr x else Inl OverflowError)))"

text \<open>
  \<open>round(x, 1)\<close> on a finite float: the exact value is rounded to one decimal, a tie going
  to the even digit, and the float nearest to that decimal is returned.
\<close>

definition py_round1 :: "rat \<Rightarrow> rat" where
  "py_round1 x = fl (of_int (py_round (x * 10)) / 10)"

text \<open>\<open>x >= y\<close> for a finite float \<open>x\<close> and a float \<open>y\<close>.\<close>

fun float_ge :: "rat \<Rightarrow> pyfloat \<Rightarrow> bool" where
  "float_ge x (Finite y) = (y \<le> x)"
| "float_ge x PosInf = False"
| "float_ge x NegInf = True"
| "float_ge x NaN = False"

subsection \<open>The loop\<close>

text \<open>
  The \<open>except\<close> branch of the loop body: the posting is kept with fixed scores when its
  lower-cased title contains one of four keywords, and is dropped otherwise.
\<close>

definition fallback_keywords :: "string list" where
  "fallback_keywords = [''machine learning'', ''ai '', ''ml '', ''data scientist'']"

definition error_fallback :: "job \<Rightarrow> job option" where
  "error_fallback j =
     (if list_ex (\<lambda>kw. contains kw (lower (dict_get (title j) []))) fallback_keywords
      then Some (j\<lparr>relevance_score := Some 7, match_score := Some 5,
                    combined_score := Some 6, ai_score := Some 6,
                    matching_skills := Some [], missing_skills := Some []\<rparr>)
      else None)"

text \<open>
  One turn of the loop of \<open>process_jobs_with_ai\<close>. \<open>scorer\<close> is \<open>scorer.score_relevance\<close> and
  \<open>resume_matcher\<close> is \<open>resume_matcher.match_job\<close>; either can raise, which is \<open>Inl\<close>. The
  test against the minimum is on the float as computed; the posting stores it rounded to
  one decimal. The result is the posting appended to \<open>processed_jobs\<close>, if one is, and the
  list of the postings \<open>match_job\<close> was called with during the turn.
\<close>

definition process_job ::
  "(job \<Rightarrow> py_error + int) \<Rightarrow> (job \<Rightarrow> py_error + match_result) \<Rightarrow> config \<Rightarrow> job
     \<Rightarrow> job option \<times> job list" where
  "process_job scorer resume_matcher cfg j =
     (case scorer j of
        Inl e \<Rightarrow> (error_fallback j, [])
      | Inr relevance \<Rightarrow>
          if relevance < min_relevance_score cfg then (None, [])
          else (case resume_matcher j of
                  Inl e \<Rightarrow> (error_fallback j, [j])
                | Inr match_result \<Rightarrow>
                    (let match_score_v = dict_get (m_match_score match_result) 0;
                         matching_skills_v = dict_get (m_matching_skills match_result) [];
                         missing_skills_v = dict_get (m_missing_skills match_result) []
                     in case combined_float relevance match_score_v of
                          Inl e \<Rightarrow> (error_fallback j, [j])
                        | Inr combined \<Rightarrow>
                            (let j' = j\<lparr>relevance_score := Some relevance,
                                         match_score := Some match_score_v,
                                         combined_score := Some (py_round1 combined),
                                         matching_skills := Some matching_skills_v,
                                         missing_skills := Some missing_skills_v,
                                         ai_score := Some (py_round combined)\<rparr>
                             in if float_ge combined (min_combined_score cfg)
                                then (Some j', [j])
                                else (None, [j])))))"

fun process_loop ::
  "(job \<Rightarrow> py_error + int) \<Rightarrow> (job \<Rightarrow> py_error + match_result) \<Rightarrow> config \<Rightarrow> job list
     \<Rightarrow> job list \<Rightarrow> job list \<Rightarrow> job list \<times> job list" where
  "process_loop scorer resume_matcher cfg [] processed_jobs calls = (processed_jobs, calls)"
| "process_loop scorer resume_matcher cfg (j # js) processed_jobs calls =
     (case process_job scorer resume_matcher cfg j of
        (None, cs) \<Rightarrow> process_loop scorer resume_matcher cfg js processed_jobs (calls @ cs)
      | (Some j', cs) \<Rightarrow>
          process_loop scorer resume_matcher cfg js (processed_jobs @ [j']) (calls @ cs))"

text \<open>
  \<open>process_jobs_with_ai\<close>: the loop, then the stable sort by descending combined score.
  \<open>match_job_calls\<close> is the list of the postings \<open>match_job\<close> was called with during the run.
\<close>

definition process_jobs_with_ai ::
  "(job \<Rightarrow> py_error + int) \<Rightarrow> (job \<Rightarrow> py_error + match_result) \<Rightarrow> config \<Rightarrow> job list
     \<Rightarrow> job list" where
  "process_jobs_with_ai scorer resume_matcher cfg jobs =
     sort_key (\<lambda>j. - dict_get (combined_score j) 0)
       (fst (process_loop scorer resume_matcher cfg jobs [] []))"

definition match_job_calls ::
  "(job \<Rightarrow> py_error + int) \<Rightarrow> (job \<Rightarrow> py_error + match_result) \<Rightarrow> config \<Rightarrow> job list
     \<Rightarrow> job list" where
  "match_job_calls scorer resume_matcher cfg jobs =
     snd (process_loop scorer resume_matcher cfg jobs [] [])"

text \<open>
  The posting was admitted by the \<open>except\<close> branch: it carries the fixed scores, and its title
  contains one of the keywords.
\<close>

definition admitted_by_fallback :: "job \<Rightarrow> bool" where
  "admitted_by_fallback j \<longleftrightarrow>
     relevance_score j = Some 7 \<and> match_score j = Some 5 \<and> combined_score j = Some 6
     \<and> ai_score j = Some 6
     \<and> list_ex (\<lambda>kw. contains kw (lower (dict_get (title j) []))) fallback_keywords"

text \<open>
  The posting passed the test of the loop: its relevance and match scores give, in floating
  point, a combined score that is at least the configured minimum, and the combined score
  it stores is that float rounded to one decimal.
\<close>

definition passed_threshold :: "config \<Rightarrow> job \<Rightarrow> bool" where
  "passed_threshold cfg j =
     (case (relevance_score j, match_score j) of
        (Some r, Some m) \<Rightarrow>
          (case combined_float r m of
             Inr x \<Rightarrow> float_ge x (min_combined_score cfg) \<and> combined_score j = Some (py_round1 x)
           | Inl e \<Rightarrow> False)
      | _ \<Rightarrow> False)"

text \<open>
  The combined score the posting stores is at least the configured minimum rounded to one
  decimal (nothing is said for a minimum that is not a finite float).
\<close>

definition reaches_rounded_minimum :: "config \<Rightarrow> job \<Rightarrow> bool" where
  "reaches_rounded_minimum cfg j =
     (case min_combined_score cfg of
        Finite q \<Rightarrow> (case combined_score j of Some s \<Rightarrow> py_round1 q \<le> s | None \<Rightarrow> False)
      | _ \<Rightarrow> True)"

text \<open>
  Stand-ins for the two services: a scorer that answers with the keyword tiers, a scorer
  whose inference answer is an object with a word as score, matchers that answer the same
  score for every posting, and a matcher that raises on one posting. Configurations: the
  default thresholds, a minimum combined score of 7, one of 7.2 (the float nearest to it),
  and one of 5.800000000000001 (the float that follows the float nearest to 5.8).
\<close>

definition scorer_keywords :: "job \<Rightarrow> py_error + int" where
  "scorer_keywords j = Inr (fallback_score j)"

definition scorer_word_answer :: "job \<Rightarrow> py_error + int" where
  "scorer_word_answer j = score_relevance loads_two (Some response_high) j"

definition matcher_eight :: "job \<Rightarrow> py_error + match_result" where
  "matcher_eight j =
     Inr \<lparr> m_match_score = Some 8, m_matching_skills = Some [''python''],
           m_missing_skills = Some [], m_match_summary = None \<rparr>"

definition matcher_raising_on :: "job \<Rightarrow> job \<Rightarrow> py_error + match_result" where
  "matcher_raising_on bad j = (if j = bad then Inl TypeError else matcher_eight j)"

definition matcher_answering :: "int \<Rightarrow> job \<Rightarrow> py_error + match_result" where
  "matcher_answering n j =
     Inr \<lparr> m_match_score = Some n, m_matching_skills = Some [],
           m_missing_skills = Some [], m_match_summary = None \<rparr>"

definition config_default :: config where
  "config_default = \<lparr> min_relevance_score = 5, min_combined_score = Finite 5 \<rparr>"

definition config_strict :: config where
  "config_strict = \<lparr> min_relevance_score = 5, min_combined_score = Finite 7 \<rparr>"

definition config_7_2 :: config where
  "config_7_2 = \<lparr> min_relevance_score = 5, min_combined_score = Finite (fl (36 / 5)) \<rparr>"

definition config_above_5_8 :: config where
  "config_above_5_8 =
     \<lparr> min_relevance_score = 5, min_combined_score = Finite (fl (29 / 5) + 1 / 2 ^ 50) \<rparr>"

section \<open>Local storage (storage/local_storage.py)\<close>

text \<open>
  The contents of the four files of \<open>LocalStorageClient\<close>: the rows of \<open>jobs.csv\<close> after the
  header, the \<open>jobs\<close> list and the metadata of \<open>jobs.json\<close>, the index of \<open>job_index.json\<close>
  (key to time of first storage), and the three tallies of \<open>analytics.json\<close> (of an entry of
  \<open>daily_stats\<close> only \<open>count\<close> ever changes). Reading and writing a file is reading and
  updating the field; a failure of the file system is outside the model. A cell of a row
  is the text \<open>str\<close> gives for it.
\<close>

record store =
  csv_rows :: "string list list"
  json_jobs :: "job list"
  total_jobs :: nat
  last_updated :: "string option"
  index :: "string \<rightharpoonup> string"
  daily_stats :: "string \<rightharpoonup> nat"
  source_stats :: "string \<rightharpoonup> nat"
  skill_frequency :: "string \<rightharpoonup> nat"

text \<open>
  The readings of the clock during one call of \<open>append_job\<close>, in the order of the calls of
  \<open>datetime.now()\<close>: for \<open>added_at\<close>, for \<open>last_updated\<close>, for the index entry, and the date
  for the daily tally.
\<close>

record clock =
  now_added :: string
  now_updated :: string
  now_index :: string
  day :: string

definition HEADERS :: "string list" where
  "HEADERS =
     [''Date'', ''Job Title'', ''Company'', ''Location'', ''Link'', ''Source'',
      ''Relevance Score'', ''Match Score'', ''Combined Score'', ''Status'',
      ''Matching Skills'', ''Missing Skills'', ''Salary'', ''Job Type'']"

text \<open>\<open>LocalStorageClient._normalize_key\<close>.\<close>

definition normalize_key :: "string \<Rightarrow> string \<Rightarrow> string" where
  "normalize_key title_v company_v =
     str_join '' '' (split (keep_alnum_space title_v)) @ ''|''
       @ str_join '' '' (split (keep_alnum_space company_v))"

definition job_exists :: "store \<Rightarrow> string \<Rightarrow> string \<Rightarrow> bool" where
  "job_exists s title_v company_v = (index s (normalize_key title_v company_v) \<noteq> None)"

text \<open>\<open>_update_analytics\<close>: one more posting for the day and for the source, one more
  occurrence for each matching skill.\<close>

fun count_skills :: "string list \<Rightarrow> (string \<rightharpoonup> nat) \<Rightarrow> (string \<rightharpoonup> nat)" where
  "count_skills [] freq = freq"
| "count_skills (skill # rest) freq =
     count_skills rest (freq(lower skill \<mapsto> dict_get (freq (lower skill)) 0 + 1))"

definition update_analytics :: "string \<Rightarrow> store \<Rightarrow> job \<Rightarrow> store" where
  "update_analytics today_v s j =
     (let source_v = dict_get (source j) ''Unknown''
      in s\<lparr> daily_stats := (daily_stats s)(today_v \<mapsto> dict_get (daily_stats s today_v) 0 + 1),
             source_stats := (source_stats s)(source_v \<mapsto> dict_get (source_stats s source_v) 0 + 1),
             skill_frequency := count_skills (dict_get (matching_skills j) []) (skill_frequency s) \<rparr>)"

text \<open>
  \<open>append_job(row_data, job_dict)\<close>: the result and the store after the call. The title and
  the company are the second and the third cell of the row. An empty dictionary is
  \<^const>\<open>empty_job\<close>, and counts as no dictionary. The call also pads the caller's row and
  stamps the caller's dictionary with \<open>added_at\<close>; the title and the company stay as they are.
\<close>

definition row_title :: "string list \<Rightarrow> string" where
  "row_title row_data = (if 1 < length row_data then row_data ! 1 else [])"

definition row_company :: "string list \<Rightarrow> string" where
  "row_company row_data = (if 2 < length row_data then row_data ! 2 else [])"

definition append_job :: "clock \<Rightarrow> store \<Rightarrow> string list \<Rightarrow> job option \<Rightarrow> bool \<times> store" where
  "append_job clk s row_data job_dict =
     (let title_v = row_title row_data;
          company_v = row_company row_data
      in if job_exists s title_v company_v then (False, s)
         else
           (let padded = row_data @ replicate (length HEADERS - length row_data) [];
                s1 = s\<lparr> csv_rows := csv_rows s @ [take (length HEADERS) padded] \<rparr>;
                s2 = (case job_dict of
                        None \<Rightarrow> s1
                      | Some jd \<Rightarrow>
                          if jd \<noteq> empty_job
                          then (let jobs = json_jobs s1 @ [jd\<lparr>added_at := Some (now_added clk)\<rparr>]
                                in s1\<lparr> json_jobs := jobs, total_jobs := length jobs,
                                       last_updated := Some (now_updated clk) \<rparr>)
                          else s1);
                s3 = s2\<lparr> index := (index s2)(normalize_key title_v company_v \<mapsto> now_index clk) \<rparr>;
                s4 = update_analytics (day clk) s3 (dict_get job_dict empty_job)
            in (True, s4)))"

text \<open>\<open>get_job_count\<close>: the number of postings in \<open>jobs.json\<close>.\<close>

definition get_job_count :: "store \<Rightarrow> nat" where
  "get_job_count s = length (json_jobs s)"

text \<open>The store right after initialization, a posting with its row, and two clocks.\<close>

definition empty_store :: store where
  "empty_store = \<lparr> csv_rows = [], json_jobs = [], total_jobs = 0, last_updated = None,
     index = Map.empty, daily_stats = Map.empty, source_stats = Map.empty,
     skill_frequency = Map.empty \<rparr>"

definition row_ml :: "string list" where
  "row_ml = [''2024-01-15'', ''Senior ML Engineer'', ''Acme'', ''Remote'']"

definition clock_first :: clock where
  "clock_first = \<lparr> now_added = ''2024-01-15T10:00:00'', now_updated = ''2024-01-15T10:00:01'',
                    now_index = ''2024-01-15T10:00:02'', day = ''2024-01-15'' \<rparr>"

definition clock_second :: clock where
  "clock_second = \<lparr> now_added = ''2024-01-16T09:00:00'', now_updated = ''2024-01-16T09:00:01'',
                     now_index = ''2024-01-16T09:00:02'', day = ''2024-01-16'' \<rparr>"

section \<open>Identity keys: proofs\<close>

text \<open>The three tables agree with each other: lower-casing keeps the class of a character
  and is idempotent, and a whitespace character has no case.\<close>

lemma of_char_lower_char:
  "(of_char (lower_char c) :: nat) =
     (let n = (of_char c :: nat) in
      if (65 \<le> n \<and> n \<le> 90) \<or> (192 \<le> n \<and> n \<le> 214) \<or> (216 \<le> n \<and> n \<le> 222)
      then n + 32 else n)"
  by (auto simp: lower_char_def Let_def)

lemma lower_char_idem: "lower_char (lower_char c) = lower_char c"
proof -
  have "(of_char (lower_char (lower_char c)) :: nat) = of_char (lower_char c)"
    by (simp add: of_char_lower_char [of "lower_char c"] Let_def) (auto simp: of_char_lower_char Let_def)
  thus ?thesis by (simp only: of_char_eq_iff)
qed

lemma isalnum_lower_char: "isalnum (lower_char c) = isalnum c"
  unfolding isalnum_def of_char_lower_char Let_def by auto

lemma isspace_lower_char: "isspace (lower_char c) = isspace c"
  unfolding isspace_def of_char_lower_char Let_def by auto

lemma filter_lower:
  "filter (\<lambda>c. isalnum c \<or> isspace c) (map lower_char s)
     = map lower_char (filter (\<lambda>c. isalnum c \<or> isspace c) s)"
  by (induction s) (simp_all add: isalnum_lower_char isspace_lower_char)

lemma keep_alnum_space_lower: "keep_alnum_space (lower s) = keep_alnum_space s"
  by (simp only: keep_alnum_space_def lower_def filter_lower map_map comp_def lower_char_idem)

lemma isspace_lower_char_fixed: "isspace c \<Longrightarrow> lower_char c = c"
  by (auto simp: isspace_def lower_char_def Let_def)

text \<open>\<open>split\<close> cuts at every whitespace character, and gives non-empty words without
  whitespace.\<close>

lemma isspace_blank: "isspace CHR '' ''"
  by (simp add: isspace_def)

lemma split_space: "isspace c \<Longrightarrow> split (c # cs) = split cs"
  by simp

lemma split_last_of_word: "\<not> isspace c \<Longrightarrow> cs = [] \<or> isspace (hd cs) \<Longrightarrow> split (c # cs) = [c] # split cs"
  by auto

lemma split_inside_word:
  "\<not> isspace c \<Longrightarrow> cs \<noteq> [] \<Longrightarrow> \<not> isspace (hd cs) \<Longrightarrow> split cs = w # ws \<Longrightarrow>
     split (c # cs) = (c # w) # ws"
  by simp

lemma split_nonempty: "s \<noteq> [] \<Longrightarrow> \<not> isspace (hd s) \<Longrightarrow> split s \<noteq> []"
  by (cases s) (auto split: list.splits)

lemma split_append_space:
  assumes "isspace d"
  shows "split (a @ d # b) = split a @ split b"
proof (induction a)
  case Nil
  show ?case using assms by (simp only: append_Nil split_space split.simps(1))
next
  case (Cons c a)
  show ?case
  proof (cases "isspace c")
    case True
    thus ?thesis using Cons.IH by (simp only: append_Cons split_space)
  next
    case nsp: False
    show ?thesis
    proof (cases "a = [] \<or> isspace (hd a)")
      case True
      hence "(a @ d # b) = [] \<or> isspace (hd (a @ d # b))"
        using assms by (cases a) auto
      hence "split (c # a @ d # b) = [c] # split (a @ d # b)"
        using nsp by (rule split_last_of_word [rotated])
      moreover have "split (c # a) = [c] # split a"
        using nsp True by (rule split_last_of_word)
      ultimately show ?thesis using Cons.IH by (simp only: append_Cons)
    next
      case False
      hence ne: "a \<noteq> []" and hd: "\<not> isspace (hd a)" by auto
      from split_nonempty [OF ne hd]
      obtain w ws where sp: "split a = w # ws" by (cases "split a") auto
      have ne': "a @ d # b \<noteq> []" by simp
      have hd': "\<not> isspace (hd (a @ d # b))" using ne hd by (cases a) auto
      have "split (a @ d # b) = w # (ws @ split b)" using Cons.IH sp by simp
      from split_inside_word [OF nsp ne' hd' this]
      have "split (c # a @ d # b) = (c # w) # ws @ split b" .
      moreover from split_inside_word [OF nsp ne hd sp]
      have "split (c # a) = (c # w) # ws" .
      ultimately show ?thesis by (simp only: append_Cons)
    qed
  qed
qed

lemma split_word:
  "w \<noteq> [] \<Longrightarrow> \<forall>c \<in> set w. \<not> isspace c \<Longrightarrow> split w = [w]"
proof (induction w)
  case Nil
  then show ?case by simp
next
  case (Cons c w)
  hence nsp: "\<not> isspace c" by simp
  show ?case
  proof (cases "w = []")
    case True
    with nsp show ?thesis by simp
  next
    case False
    with Cons have sp: "split w = [w]" by simp
    have "\<not> isspace (hd w)" using False Cons.prems by (cases w) auto
    from split_inside_word [OF nsp False this sp] show ?thesis .
  qed
qed

lemma split_words:
  "u \<in> set (split s) \<Longrightarrow> u \<noteq> [] \<and> (\<forall>x \<in> set u. \<not> isspace x) \<and> set u \<subseteq> set s"
proof (induction s arbitrary: u)
  case Nil
  then show ?case by simp
next
  case (Cons c cs)
  have IH: "v \<noteq> [] \<and> (\<forall>x \<in> set v. \<not> isspace x) \<and> set v \<subseteq> set cs" if "v \<in> set (split cs)" for v
    using that by (rule Cons.IH)
  show ?case
  proof (cases "isspace c")
    case True
    hence "u \<in> set (split cs)" using Cons.prems by (simp only: split_space)
    from IH [OF this] show ?thesis by auto
  next
    case nsp: False
    show ?thesis
    proof (cases "cs = [] \<or> isspace (hd cs)")
      case True
      with nsp have "split (c # cs) = [c] # split cs" by (rule split_last_of_word)
      with Cons.prems have "u = [c] \<or> u \<in> set (split cs)" by simp
      thus ?thesis
      proof
        assume "u = [c]"
        thus ?thesis using nsp by simp
      next
        assume "u \<in> set (split cs)"
        from IH [OF this] show ?thesis by auto
      qed
    next
      case False
      hence ne: "cs \<noteq> []" and hd: "\<not> isspace (hd cs)" by auto
      from split_nonempty [OF ne hd]
      obtain w ws where sp: "split cs = w # ws" by (cases "split cs") auto
      from split_inside_word [OF nsp ne hd sp] Cons.prems
      have "u = c # w \<or> u \<in> set ws" by simp
      thus ?thesis
      proof
        assume u: "u = c # w"
        have "w \<in> set (split cs)" using sp by simp
        from IH [OF this] u nsp show ?thesis by auto
      next
        assume "u \<in> set ws"
        hence "u \<in> set (split cs)" using sp by simp
        from IH [OF this] show ?thesis by auto
      qed
    qed
  qed
qed

lemma split_str_join:
  "\<forall>w \<in> set ws. w \<noteq> [] \<and> (\<forall>c \<in> set w. \<not> isspace c) \<Longrightarrow> split (str_join '' '' ws) = ws"
proof (induction "'' ''" ws rule: str_join.induct)
  case 1
  then show ?case by simp
next
  case (2 w)
  then show ?case by (simp add: split_word)
next
  case (3 w v ws)
  have "split (w @ CHR '' '' # str_join '' '' (v # ws)) = split w @ split (str_join '' '' (v # ws))"
    using isspace_blank by (rule split_append_space)
  moreover have "split w = [w]" using 3(2) by (simp add: split_word)
  moreover have "split (str_join '' '' (v # ws)) = v # ws" using 3 by simp
  ultimately show ?case by simp
qed

lemma set_str_join: "set (str_join sep ws) \<subseteq> set sep \<union> \<Union> (set ` set ws)"
  by (induction sep ws rule: str_join.induct) auto

text \<open>The normalization of one field.\<close>

lemma keep_alnum_space_fixed:
  "\<forall>c \<in> set s. (isalnum c \<or> isspace c) \<and> lower_char c = c \<Longrightarrow> keep_alnum_space s = s"
  by (induction s) (auto simp: keep_alnum_space_def)

lemma keep_alnum_space_chars:
  "c \<in> set (keep_alnum_space s) \<Longrightarrow> (isalnum c \<or> isspace c) \<and> lower_char c = c"
  by (auto simp: keep_alnum_space_def isalnum_lower_char isspace_lower_char lower_char_idem)

lemma keep_alnum_space_append_space:
  "isspace d \<Longrightarrow> keep_alnum_space (a @ d # b) = keep_alnum_space a @ d # keep_alnum_space b"
  by (simp add: keep_alnum_space_def isspace_lower_char_fixed)

lemma normalize_field_idem: "normalize_field (normalize_field s) = normalize_field s"
proof -
  let ?ws = "split (keep_alnum_space s)"
  have words: "\<forall>w \<in> set ?ws. w \<noteq> [] \<and> (\<forall>c \<in> set w. \<not> isspace c)"
    using split_words by blast
  have "\<forall>c \<in> set (str_join '' '' ?ws). (isalnum c \<or> isspace c) \<and> lower_char c = c"
  proof
    fix c assume "c \<in> set (str_join '' '' ?ws)"
    with set_str_join [of "'' ''" ?ws]
    consider "c = CHR '' ''" | w where "w \<in> set ?ws" "c \<in> set w" by auto
    thus "(isalnum c \<or> isspace c) \<and> lower_char c = c"
    proof cases
      case 1
      thus ?thesis using isspace_blank by (simp add: isspace_lower_char_fixed)
    next
      case 2
      with split_words [of w "keep_alnum_space s"] have "c \<in> set (keep_alnum_space s)" by auto
      thus ?thesis by (rule keep_alnum_space_chars)
    qed
  qed
  hence "keep_alnum_space (str_join '' '' ?ws) = str_join '' '' ?ws"
    by (rule keep_alnum_space_fixed)
  thus ?thesis
    using split_str_join [OF words] by (simp add: normalize_field_def)
qed

lemma normalize_field_lower: "normalize_field (lower s) = normalize_field s"
  by (simp add: normalize_field_def keep_alnum_space_lower)

lemma normalize_field_punctuation:
  "normalize_field (filter (\<lambda>c. isalnum c \<or> isspace c) s) = normalize_field s"
  by (simp add: normalize_field_def keep_alnum_space_def)

lemma normalize_field_whitespace:
  assumes "isspace d" and "isspace d'"
  shows "normalize_field (d # s) = normalize_field s"
    and "normalize_field (s @ [d]) = normalize_field s"
    and "normalize_field (a @ d # d' # b) = normalize_field (a @ d' # b)"
proof -
  show "normalize_field (d # s) = normalize_field s"
    using assms(1) keep_alnum_space_append_space [of d "[]" s] split_append_space [of d "[]"]
    by (simp add: normalize_field_def keep_alnum_space_def)
  show "normalize_field (s @ [d]) = normalize_field s"
    using assms(1) keep_alnum_space_append_space [of d s "[]"]
    by (simp add: normalize_field_def split_append_space keep_alnum_space_def)
  have "split (keep_alnum_space (a @ d # d' # b)) = split (keep_alnum_space a) @ split (keep_alnum_space b)"
    using assms keep_alnum_space_append_space [of d a "d' # b"]
      keep_alnum_space_append_space [of d' "[]" b]
    by (simp add: split_append_space keep_alnum_space_def)
  moreover have "split (keep_alnum_space (a @ d' # b)) = split (keep_alnum_space a) @ split (keep_alnum_space b)"
    using assms keep_alnum_space_append_space [of d' a b]
    by (simp add: split_append_space)
  ultimately show "normalize_field (a @ d # d' # b) = normalize_field (a @ d' # b)"
    by (simp add: normalize_field_def)
qed

lemma normalize_job_key_insensitive:
  "normalize_job_key (lower t) (lower c) = normalize_job_key t c"
  "normalize_job_key (filter (\<lambda>x. isalnum x \<or> isspace x) t) (filter (\<lambda>x. isalnum x \<or> isspace x) c)
     = normalize_job_key t c"
  "normalize_job_key (normalize_field t) (normalize_field c) = normalize_job_key t c"
  by (simp_all add: normalize_job_key_def normalize_field_lower normalize_field_punctuation
      normalize_field_idem)

text \<open>
  C3. The two key functions do not normalize alike. The cross-run key \<open>_normalize_job_key\<close>
  is idempotent and does not depend on case, on characters that are neither alphanumeric
  nor whitespace, on whitespace at the ends or on the length of a run of whitespace (the
  lemmas above). The aggregator key \<open>_job_key\<close> does not collapse whitespace. On the
  example of the specification (\<open>" ML Engineer "\<close>, \<open>"Tech-Co"\<close> against \<open>"ml engineer"\<close>,
  \<open>"techco"\<close>) both functions give equal keys. On \<open>"ML Engineer"\<close>, \<open>"Acme"\<close> against
  \<open>"ml  engineer!"\<close>, \<open>"ACME"\<close>, which differ only in case, in internal whitespace and in a
  punctuation mark, the cross-run key gives equal keys and the aggregator key gives
  different ones.
\<close>

theorem job_key_keeps_inner_whitespace:
  "key_of job_spaced = key_of job_plain
   \<and> job_key job_spaced = job_key job_plain
   \<and> key_of jA = key_of jB
   \<and> job_key jA = ''ml engineer|acme''
   \<and> job_key jB = ''ml  engineer|acme''
   \<and> job_key jA \<noteq> job_key jB"
  by code_simp

section \<open>Deduplication: proofs\<close>

lemma existing_keys_loop_eq:
  "existing_keys_loop ex S = S \<union> (\<lambda>(t, c). normalize_job_key t c) ` set ex"
  by (induction ex S rule: existing_keys_loop.induct) auto

lemma dedup_loop_nths:
  "dedup_loop js ek seen uniq = uniq @ nths js {i. kept_index js (ek \<union> seen) i}"
proof (induction js arbitrary: seen uniq)
  case Nil
  then show ?case by simp
next
  case (Cons j js)
  show ?case
  proof (cases "key_of j \<notin> ek \<and> key_of j \<notin> seen")
    case True
    have "{i. Suc i \<in> {i. kept_index (j # js) (ek \<union> seen) i}} = {i. kept_index js (ek \<union> insert (key_of j) seen) i}"
      by (auto simp: kept_index_def All_less_Suc2)
    moreover have "0 \<in> {i. kept_index (j # js) (ek \<union> seen) i}"
      using True by (simp add: kept_index_def)
    ultimately show ?thesis
      using True Cons.IH[of "insert (key_of j) seen" "uniq @ [j]"]
      by (simp add: nths_Cons Let_def)
  next
    case False
    have "{i. Suc i \<in> {i. kept_index (j # js) (ek \<union> seen) i}} = {i. kept_index js (ek \<union> seen) i}"
      using False by (auto simp: kept_index_def All_less_Suc2)
    moreover have "0 \<notin> {i. kept_index (j # js) (ek \<union> seen) i}"
      using False by (auto simp add: kept_index_def)
    ultimately show ?thesis
      using False Cons.IH[of seen uniq]
      by (auto simp add: nths_Cons Let_def simp del: mem_Collect_eq)
  qed
qed

lemma deduplicate_jobs_nths:
  "deduplicate_jobs new_jobs existing_jobs =
     nths new_jobs {i. kept_index new_jobs (existing_keys_loop existing_jobs {}) i}"
  by (simp add: deduplicate_jobs_def dedup_loop_nths)

text \<open>
  C4. Deduplication is a pure filter: no posting it returns has an identity key among the
  keys of the existing (title, company) pairs, and a posting whose key is absent from the
  existing keys and carried by no other posting of the batch is never dropped.
\<close>

theorem deduplicate_jobs_pure_filter:
  "(\<forall>j \<in> set (deduplicate_jobs new_jobs existing_jobs).
      \<forall>(t, c) \<in> set existing_jobs. key_of j \<noteq> normalize_job_key t c) \<and>
   (\<forall>i < length new_jobs.
      (\<forall>(t, c) \<in> set existing_jobs. key_of (new_jobs ! i) \<noteq> normalize_job_key t c) \<and>
      (\<forall>m < length new_jobs. m \<noteq> i \<longrightarrow> key_of (new_jobs ! m) \<noteq> key_of (new_jobs ! i))
      \<longrightarrow> new_jobs ! i \<in> set (deduplicate_jobs new_jobs existing_jobs))"
proof -
  have not_existing: "\<forall>(t, c) \<in> set existing_jobs. key_of j \<noteq> normalize_job_key t c"
    if "j \<in> set (deduplicate_jobs new_jobs existing_jobs)" for j
  proof -
    from that obtain i
      where "kept_index new_jobs (existing_keys_loop existing_jobs {}) i" "j = new_jobs ! i"
      by (auto simp: deduplicate_jobs_nths set_nths)
    then have "key_of j \<notin> (\<lambda>(t, c). normalize_job_key t c) ` set existing_jobs"
      by (simp add: kept_index_def existing_keys_loop_eq)
    then show ?thesis by force
  qed
  have unique_kept: "new_jobs ! i \<in> set (deduplicate_jobs new_jobs existing_jobs)"
    if i: "i < length new_jobs"
      and ex: "\<forall>(t, c) \<in> set existing_jobs. key_of (new_jobs ! i) \<noteq> normalize_job_key t c"
      and un: "\<forall>m < length new_jobs. m \<noteq> i \<longrightarrow> key_of (new_jobs ! m) \<noteq> key_of (new_jobs ! i)"
    for i
  proof -
    have "key_of (new_jobs ! i) \<notin> existing_keys_loop existing_jobs {}"
      using ex by (auto simp: existing_keys_loop_eq)
    moreover have "\<forall>m<i. key_of (new_jobs ! m) \<noteq> key_of (new_jobs ! i)"
      using un i by auto
    ultimately have "kept_index new_jobs (existing_keys_loop existing_jobs {}) i"
      using i by (simp add: kept_index_def)
    then show ?thesis
      using i by (auto simp: deduplicate_jobs_nths set_nths)
  qed
  show ?thesis
    using not_existing unique_kept by blast
qed

text \<open>
  C10. The output of deduplication is a subsequence of the batch: it is the batch restricted
  to the positions whose key is not an existing key and does not occur at an earlier
  position, so the relative order is kept and of the postings sharing a key exactly the first
  one stays.
\<close>

theorem deduplicate_jobs_keeps_first:
  "subseq (deduplicate_jobs new_jobs existing_jobs) new_jobs \<and>
   deduplicate_jobs new_jobs existing_jobs =
     nths new_jobs {i. first_occurrence new_jobs existing_jobs i}"
proof -
  have "{i. first_occurrence new_jobs existing_jobs i} =
        {i. kept_index new_jobs (existing_keys_loop existing_jobs {}) i}"
    by (force simp: first_occurrence_def kept_index_def existing_keys_loop_eq)
  then have e: "deduplicate_jobs new_jobs existing_jobs =
     nths new_jobs {i. first_occurrence new_jobs existing_jobs i}"
    by (simp add: deduplicate_jobs_nths)
  moreover have "subseq (nths new_jobs {i. first_occurrence new_jobs existing_jobs i}) new_jobs"
    using subseq_conv_nths by blast
  ultimately show ?thesis by simp
qed

theorem deduplicate_jobs_pure_filter_witness:
  "jC \<in> set (deduplicate_jobs ex_batch ex_existing) \<and>
   jD \<notin> set (deduplicate_jobs ex_batch ex_existing)"
proof -
  have len: "3 < length ex_batch" by code_simp
  have nth: "ex_batch ! 3 = jC" by code_simp
  have absent: "\<forall>(t, c) \<in> set ex_existing. key_of (ex_batch ! 3) \<noteq> normalize_job_key t c"
    by code_simp
  have uniq: "\<forall>m < length ex_batch. m \<noteq> 3 \<longrightarrow> key_of (ex_batch ! m) \<noteq> key_of (ex_batch ! 3)"
    by code_simp
  have kd: "key_of jD = normalize_job_key ''nlp engineer'' ''old co''" by code_simp
  have m: "(''nlp engineer'', ''old co'') \<in> set ex_existing" by code_simp
  note t = deduplicate_jobs_pure_filter [of ex_batch ex_existing]
  from t len absent uniq nth have "jC \<in> set (deduplicate_jobs ex_batch ex_existing)"
    by metis
  moreover from t m kd have "jD \<notin> set (deduplicate_jobs ex_batch ex_existing)"
    by fastforce
  ultimately show ?thesis by simp
qed

theorem deduplicate_jobs_keeps_first_witness:
  "subseq (deduplicate_jobs ex_batch ex_existing) ex_batch \<and>
   deduplicate_jobs ex_batch ex_existing = [jA, jC] \<and>
   first_occurrence ex_batch ex_existing 0 \<and> \<not> first_occurrence ex_batch ex_existing 1"
proof -
  have e: "deduplicate_jobs ex_batch ex_existing = [jA, jC]" by code_simp
  have f0: "first_occurrence ex_batch ex_existing 0" by code_simp
  have f1: "\<not> first_occurrence ex_batch ex_existing 1" by code_simp
  have "subseq (deduplicate_jobs ex_batch ex_existing) ex_batch"
    using deduplicate_jobs_keeps_first [of ex_batch ex_existing] by blast
  with e f0 f1 show ?thesis by simp
qed

section \<open>Relevance fallback: proofs\<close>

lemma contains_iff_sublist: "contains needle hay \<longleftrightarrow> sublist needle hay"
  by (induction hay) (auto simp: sublist_Cons_right)

lemma keyword_loop_Some:
  "keyword_loop kws combined v = (if \<exists>kw \<in> set kws. sublist kw combined then Some v else None)"
  by (induction kws) (simp_all add: contains_iff_sublist)

text \<open>
  C7. The fallback scorer returns 9 when some high-relevance keyword occurs in the
  lower-cased title and description, else 7 when some medium keyword occurs, else 5 when
  some low keyword occurs, and 3 otherwise: the tiers are tried in this order and the
  first that matches decides.
\<close>

theorem fallback_score_tiers:
  "fallback_score j =
     (if \<exists>kw \<in> set HIGH_RELEVANCE. sublist kw (combined_text j) then 9
      else if \<exists>kw \<in> set MEDIUM_RELEVANCE. sublist kw (combined_text j) then 7
      else if \<exists>kw \<in> set LOW_RELEVANCE. sublist kw (combined_text j) then 5
      else 3)"
  by (simp add: fallback_score_def keyword_loop_Some Let_def)

theorem fallback_score_tiers_witness:
  "fallback_score job_ml = 9 \<and> fallback_score job_data_eng = 7 \<and>
   sublist ''software engineer'' (combined_text job_data_eng) \<and>
   fallback_score job_backend = 5 \<and> fallback_score job_marketing = 3"
proof -
  have hi: "\<exists>kw \<in> set HIGH_RELEVANCE. sublist kw (combined_text job_ml)"
    unfolding contains_iff_sublist [symmetric] by code_simp
  have nhi: "\<not> (\<exists>kw \<in> set HIGH_RELEVANCE. sublist kw (combined_text job_data_eng))"
    unfolding contains_iff_sublist [symmetric] by code_simp
  have me: "\<exists>kw \<in> set MEDIUM_RELEVANCE. sublist kw (combined_text job_data_eng)"
    unfolding contains_iff_sublist [symmetric] by code_simp
  have lo: "sublist ''software engineer'' (combined_text job_data_eng)"
    unfolding contains_iff_sublist [symmetric] by code_simp
  have b: "fallback_score job_backend = 5" by code_simp
  have m: "fallback_score job_marketing = 3" by code_simp
  have "fallback_score job_ml = 9"
    using fallback_score_tiers [of job_ml] hi by simp
  moreover have "fallback_score job_data_eng = 7"
    using fallback_score_tiers [of job_data_eng] nhi me by simp
  ultimately show ?thesis using lo b m by simp
qed

section \<open>Standardization: proofs\<close>

lemma standardize_job_description_bounded:
  "description (standardize_job src today now t c l k d desc sal jt el sk ex) = Some s
   \<Longrightarrow> length s \<le> 1000"
  by (auto simp: standardize_job_def split: option.splits if_splits)

lemma strip_nonempty_iff: "strip s \<noteq> [] \<longleftrightarrow> (\<exists>c \<in> set s. \<not> isspace c)"
proof -
  have "dropWhile isspace (rev (dropWhile isspace s)) = [] \<longleftrightarrow> dropWhile isspace s = []"
  proof
    assume "dropWhile isspace s = []"
    then show "dropWhile isspace (rev (dropWhile isspace s)) = []"
      by (simp only: rev.simps dropWhile.simps)
  next
    assume a: "dropWhile isspace (rev (dropWhile isspace s)) = []"
    show "dropWhile isspace s = []"
    proof (rule ccontr)
      assume n: "dropWhile isspace s \<noteq> []"
      then have "\<not> isspace (hd (dropWhile isspace s))"
        by (rule hd_dropWhile)
      moreover have "hd (dropWhile isspace s) \<in> set (rev (dropWhile isspace s))"
        using n by simp
      ultimately show False using a
        by (metis dropWhile_eq_Nil_conv)
    qed
  qed
  then show ?thesis
    by (auto simp: strip_def dropWhile_eq_Nil_conv)
qed

lemma standardize_job_title_nonempty:
  assumes "title_arg = None \<or> title_arg = Some [] \<or> (\<exists>t c. title_arg = Some t \<and> c \<in> set t \<and> \<not> isspace c)"
  shows "\<exists>s. title (standardize_job src today now title_arg c l k d desc sal jt el sk ex) = Some s \<and> s \<noteq> []"
  using assms strip_nonempty_iff
  by (auto simp: standardize_job_def split: option.splits)

text \<open>
  C9. Standardization bounds the description by 1000 characters, but a title (or company)
  that consists of whitespace only passes the emptiness test and is then stripped to the
  empty string: the sentinel is not substituted.
\<close>

theorem standardize_job_whitespace_title:
  "title (standardize_job ''RemoteOK'' ''2024-01-15'' ''2024-01-15T10:00:00''
            (Some ''   '') (Some '' '') (Some ''Remote'') (Some ''https://example.com'')
            None (Some ''Train models'') [] [] [] None []) = Some [] \<and>
   company (standardize_job ''RemoteOK'' ''2024-01-15'' ''2024-01-15T10:00:00''
            (Some ''   '') (Some '' '') (Some ''Remote'') (Some ''https://example.com'')
            None (Some ''Train models'') [] [] [] None []) = Some []"
  by code_simp

section \<open>Relevance scorer: proofs\<close>

lemma keyword_loop_value: "keyword_loop kws combined v = Some w \<Longrightarrow> w = v"
  by (induction kws) (auto split: if_splits)

lemma fallback_score_range: "1 \<le> fallback_score j \<and> fallback_score j \<le> 10"
  by (auto simp: fallback_score_def Let_def split: option.splits dest!: keyword_loop_value)

lemma score_relevance_range:
  "score_relevance loads response j = Inr n \<Longrightarrow> 1 \<le> n \<and> n \<le> 10"
  using fallback_score_range [of j]
  by (auto simp: score_relevance_def split: option.splits if_splits sum.splits bool.splits)

text \<open>
  C2. The scorer does raise. When the inference answer is a JSON object whose score is a
  word, \<open>int\<close> fails with a \<open>ValueError\<close>; when the answer is a bare number, the membership
  test fails with a \<open>TypeError\<close>. Neither is caught in \<open>score_relevance\<close>. (When the scorer
  does return, its result lies in 1..10: lemma \<open>score_relevance_range\<close>.)
\<close>

theorem score_relevance_raises:
  assumes "loads response_high = Some (JDict [(''score'', JStr ''high'')])"
    and "loads ''7'' = Some (JInt 7)"
  shows "score_relevance loads (Some response_high) j = Inl ValueError
       \<and> score_relevance loads (Some ''7'') j = Inl TypeError"
proof -
  have ne: "response_high \<noteq> []" by (simp add: response_high_def)
  have hv: "int_of_str ''high'' = Inl ValueError" by code_simp
  show ?thesis
    using assms ne hv
    by (simp add: score_relevance_def parse_llm_response_def)
qed

theorem score_relevance_raises_witness:
  "score_relevance loads_two (Some response_high) job_ml = Inl ValueError
   \<and> score_relevance loads_two (Some ''7'') job_ml = Inl TypeError"
proof -
  have a: "loads_two response_high = Some (JDict [(''score'', JStr ''high'')])" by code_simp
  have b: "loads_two ''7'' = Some (JInt 7)" by code_simp
  show ?thesis using score_relevance_raises [OF a b] by simp
qed

section \<open>Profile matcher: proofs\<close>

lemma finite_job_skills: "finite (job_skills j)"
  by (simp add: job_skills_def extract_skills_from_text_def Let_def split: option.splits)

lemma spec_match_score_range: "1 \<le> spec_match_score m n \<and> spec_match_score m n \<le> 10"
  by (simp add: spec_match_score_def clamp_def)

lemma spec_match_score_mono:
  assumes "m \<le> m'"
  shows "spec_match_score m n \<le> spec_match_score m' n"
proof (cases "n = 0")
  case True
  then show ?thesis by (simp add: spec_match_score_def)
next
  case False
  have "(of_nat m :: rat) / of_nat n * 10 \<le> of_nat m' / of_nat n * 10"
    using assms False by (simp add: divide_right_mono)
  hence "\<lfloor>(of_nat m :: rat) / of_nat n * 10\<rfloor> \<le> \<lfloor>(of_nat m' :: rat) / of_nat n * 10\<rfloor>"
    by (rule floor_mono)
  thus ?thesis using False by (simp add: spec_match_score_def clamp_def)
qed

lemma keyword_match_score_eq:
  "m_match_score (keyword_match set_order user_skills j)
     = Some (spec_match_score (card (user_skills \<inter> job_skills j)) (card (job_skills j)))"
proof (cases "job_skills j = {}")
  case True
  then show ?thesis by (simp add: keyword_match_def spec_match_score_def Let_def)
next
  case False
  hence "card (job_skills j) \<noteq> 0" using finite_job_skills [of j] by simp
  thus ?thesis using False
    by (simp add: keyword_match_def spec_match_score_def clamp_def Let_def min_def max_def)
qed

text \<open>
  C8. The score of \<open>_keyword_match\<close> is the clamp to 1..10 of
  \<open>floor (|matching| / |job skills| * 10) + 2\<close>, where \<open>matching\<close> is the part of the
  profile's skills found among the job's skills, and it is 5 when the job has no skill.
  So the score lies in 1..10, and for a fixed job a profile with more skills never gets a
  smaller score.
\<close>

theorem keyword_match_score_formula:
  "m_match_score (keyword_match set_order user_skills j)
     = Some (spec_match_score (card (user_skills \<inter> job_skills j)) (card (job_skills j)))
   \<and> (job_skills j = {} \<longrightarrow> m_match_score (keyword_match set_order user_skills j) = Some 5)
   \<and> (\<exists>s. m_match_score (keyword_match set_order user_skills j) = Some s \<and> 1 \<le> s \<and> s \<le> 10)
   \<and> (user_skills \<subseteq> user_skills' \<longrightarrow>
        (\<exists>s s'. m_match_score (keyword_match set_order user_skills j) = Some s
             \<and> m_match_score (keyword_match set_order user_skills' j) = Some s'
             \<and> s \<le> s'))"
proof -
  have empty: "m_match_score (keyword_match set_order user_skills j) = Some 5"
    if "job_skills j = {}"
    using that by (simp add: keyword_match_score_eq spec_match_score_def)
  have mono: "spec_match_score (card (user_skills \<inter> job_skills j)) (card (job_skills j))
        \<le> spec_match_score (card (user_skills' \<inter> job_skills j)) (card (job_skills j))"
    if "user_skills \<subseteq> user_skills'"
  proof -
    have "user_skills \<inter> job_skills j \<subseteq> user_skills' \<inter> job_skills j" using that by blast
    hence "card (user_skills \<inter> job_skills j) \<le> card (user_skills' \<inter> job_skills j)"
      using finite_job_skills [of j] by (simp add: card_mono)
    thus ?thesis by (rule spec_match_score_mono)
  qed
  show ?thesis
    using empty mono spec_match_score_range
    by (simp add: keyword_match_score_eq)
qed

lemma extract_skills_blank: "extract_skills_from_text (lower '' '') = {}"
  by code_simp

lemma job_skills_empty_job: "job_skills empty_job = {}"
  by (simp add: job_skills_def empty_job_def dict_get_def extract_skills_blank)

lemma job_skills_job_pytorch:
  "job_skills job_pytorch = {''python'', ''pytorch'', ''aws'', ''docker'', ''mlops''}"
proof -
  have "map lower [''Python'', ''PyTorch'', ''AWS'', ''Docker'', ''MLOps'']
      = [''python'', ''pytorch'', ''aws'', ''docker'', ''mlops'']"
    by code_simp
  thus ?thesis
    by (simp add: job_skills_def job_pytorch_def empty_job_def dict_get_def extract_skills_blank)
qed

theorem keyword_match_score_formula_witness:
  "m_match_score (keyword_match sorted_order profile_small job_pytorch) = Some 4
   \<and> m_match_score (keyword_match sorted_order profile_large job_pytorch) = Some 10
   \<and> profile_small \<subseteq> profile_large
   \<and> m_match_score (keyword_match sorted_order profile_small empty_job) = Some 5"
proof -
  have sub: "profile_small \<subseteq> profile_large"
    by (simp add: profile_small_def profile_large_def)
  have small: "card (profile_small \<inter> {''python'', ''pytorch'', ''aws'', ''docker'', ''mlops''}) = 1"
    by code_simp
  have large: "card (profile_large \<inter> {''python'', ''pytorch'', ''aws'', ''docker'', ''mlops''}) = 4"
    by code_simp
  have total: "card {''python'', ''pytorch'', ''aws'', ''docker'', ''mlops''} = 5"
    by code_simp
  have s4: "spec_match_score 1 5 = 4" by code_simp
  have s10: "spec_match_score 4 5 = 10" by code_simp
  have a: "m_match_score (keyword_match sorted_order profile_small job_pytorch) = Some 4"
    using keyword_match_score_formula [of sorted_order profile_small job_pytorch profile_large]
    by (simp only: job_skills_job_pytorch small total s4)
  have b: "m_match_score (keyword_match sorted_order profile_large job_pytorch) = Some 10"
    using keyword_match_score_formula [of sorted_order profile_large job_pytorch profile_large]
    by (simp only: job_skills_job_pytorch large total s10)
  have c: "m_match_score (keyword_match sorted_order profile_small empty_job) = Some 5"
    using keyword_match_score_formula [of sorted_order profile_small empty_job profile_large]
      job_skills_empty_job
    by blast
  from a b c sub show ?thesis by blast
qed

section \<open>Scoring, matching, filtering and ranking: proofs\<close>

subsection \<open>Rounding is monotone\<close>

text \<open>
  \<open>binade\<close> is the binary exponent, and the roundings \<open>py_round\<close>, \<open>fl\<close> and \<open>py_round1\<close> keep
  the order of their arguments.
\<close>

lemma py_round_of_int: "py_round (of_int n) = n"
  by (simp add: py_round_def)

lemma py_round_floor: "\<lfloor>x\<rfloor> \<le> py_round x \<and> py_round x \<le> \<lfloor>x\<rfloor> + 1"
  by (simp add: py_round_def Let_def)

lemma py_round_mono:
  assumes "x \<le> y"
  shows "py_round x \<le> py_round y"
proof (cases "\<lfloor>x\<rfloor> < \<lfloor>y\<rfloor>")
  case True
  thus ?thesis using py_round_floor [of x] py_round_floor [of y] by linarith
next
  case False
  hence eq: "\<lfloor>x\<rfloor> = \<lfloor>y\<rfloor>" using floor_mono [OF assms] by linarith
  have "x - of_int \<lfloor>y\<rfloor> \<le> y - of_int \<lfloor>y\<rfloor>" using assms by simp
  thus ?thesis by (auto simp: py_round_def Let_def eq)
qed

lemma py_round_uminus: "py_round (- x) = - py_round x"
proof (cases "x = of_int \<lfloor>x\<rfloor>")
  case True
  then obtain n where "x = of_int n" ..
  thus ?thesis by (simp add: py_round_def)
next
  case False
  hence lt: "of_int \<lfloor>x\<rfloor> < x" using of_int_floor_le [of x] by linarith
  have fl: "\<lfloor>- x\<rfloor> = - \<lfloor>x\<rfloor> - 1"
  proof (rule floor_unique)
    show "of_int (- \<lfloor>x\<rfloor> - 1) \<le> - x" using floor_correct [of x] by simp
    show "- x < of_int (- \<lfloor>x\<rfloor> - 1) + 1" using lt by simp
  qed
  show ?thesis
    unfolding py_round_def Let_def fl
    by (auto simp: algebra_simps)
qed

lemma powi_pos: "0 < (2::rat) powi k"
  by (simp add: zero_less_power_int)

lemma powi_exp_less:
  assumes "(2::rat) powi a \<le> x" and "x < 2 powi b"
  shows "a < b"
proof (rule ccontr)
  assume "\<not> a < b"
  hence "(2::rat) powi b \<le> 2 powi a" by (intro power_int_increasing) auto
  with assms show False by linarith
qed

lemma of_int_less_powi_bitlen:
  assumes "0 < a"
  shows "(2::rat) powi (bitlen a - 1) \<le> of_int a" and "of_int a < (2::rat) powi bitlen a"
proof -
  have pos: "1 \<le> bitlen a" using assms bitlen_eq_zero_iff [of a] bitlen_nonneg [of a] by linarith
  from bitlen_bounds [OF assms]
  have lo: "2 ^ nat (bitlen a - 1) \<le> a" and hi: "a < 2 ^ nat (bitlen a)" by auto
  have "(2::rat) powi (bitlen a - 1) = 2 powi int (nat (bitlen a - 1))" using pos by simp
  also have "\<dots> = of_int (2 ^ nat (bitlen a - 1))" by (simp only: power_int_of_nat) simp
  also have "\<dots> \<le> of_int a" using lo by (simp only: of_int_le_iff)
  finally show "(2::rat) powi (bitlen a - 1) \<le> of_int a" .
  have "(of_int a :: rat) < of_int (2 ^ nat (bitlen a))" using hi by (simp only: of_int_less_iff)
  also have "\<dots> = 2 powi int (nat (bitlen a))" by (simp only: power_int_of_nat) simp
  also have "\<dots> = 2 powi bitlen a" using pos by simp
  finally show "of_int a < (2::rat) powi bitlen a" .
qed

lemma binade_bounds:
  assumes "q \<noteq> 0"
  shows "2 powi binade q \<le> \<bar>q\<bar>" and "\<bar>q\<bar> < 2 powi (binade q + 1)"
proof -
  obtain a b where qo: "quotient_of \<bar>q\<bar> = (a, b)" by (cases "quotient_of \<bar>q\<bar>")
  have b: "0 < b" using qo by (rule quotient_of_denom_pos)
  have q: "\<bar>q\<bar> = of_int a / of_int b" using qo by (rule quotient_of_div)
  have "0 < \<bar>q\<bar>" using assms by simp
  hence a: "0 < a" using b unfolding q by (simp add: zero_less_divide_iff)
  define d where "d = bitlen a - bitlen b"
  note A = of_int_less_powi_bitlen [OF a]
  note B = of_int_less_powi_bitlen [OF b]
  have bpos: "(0::rat) < of_int b" using b by simp
  have "of_int a < (2::rat) powi bitlen a" by (rule A(2))
  also have "\<dots> = 2 powi (d + 1) * 2 powi (bitlen b - 1)"
    by (simp add: d_def power_int_add [symmetric])
  also have "\<dots> \<le> 2 powi (d + 1) * of_int b"
    using B(1) powi_pos [of "d + 1"] by (simp add: mult_left_mono)
  finally have hi: "\<bar>q\<bar> < 2 powi (d + 1)"
    unfolding q using bpos by (simp add: pos_divide_less_eq)
  have "(2::rat) powi (d - 1) * of_int b < 2 powi (d - 1) * 2 powi bitlen b"
    using B(2) powi_pos [of "d - 1"] by (simp add: mult_strict_left_mono)
  also have "\<dots> = 2 powi (bitlen a - 1)"
    by (simp add: d_def power_int_add [symmetric])
  also have "\<dots> \<le> of_int a" by (rule A(1))
  finally have lo: "2 powi (d - 1) < \<bar>q\<bar>"
    unfolding q using bpos by (simp add: pos_less_divide_eq)
  have bin: "binade q = (if 2 powi d \<le> \<bar>q\<bar> then d else d - 1)"
    by (simp add: binade_def qo d_def Let_def)
  show "2 powi binade q \<le> \<bar>q\<bar>" using lo by (simp add: bin)
  show "\<bar>q\<bar> < 2 powi (binade q + 1)" using hi by (auto simp: bin)
qed

lemma binade_uminus: "binade (- q) = binade q"
  by (simp add: binade_def)

lemma fl_uminus: "fl (- q) = - fl q"
  by (simp add: fl_def binade_uminus py_round_uminus Let_def)

lemma fl_bounds:
  assumes "0 < q"
  shows "2 powi binade q \<le> fl q" and "fl q \<le> 2 powi (binade q + 1)"
proof -
  define e where "e = binade q"
  define u :: rat where "u = 2 powi (e - 52)"
  have u: "0 < u" by (simp add: u_def powi_pos)
  have q: "2 powi e \<le> q" "q < 2 powi (e + 1)"
    using binade_bounds [of q] assms by (simp_all add: e_def)
  have e52: "(2::rat) powi e = of_int (2 ^ 52) * u"
    using power_int_add [of "2::rat" 52 "e - 52"] by (simp add: u_def)
  have e53: "(2::rat) powi (e + 1) = of_int (2 ^ 53) * u"
    using power_int_add [of "2::rat" 53 "e - 52"] by (simp add: u_def add.commute)
  have "of_int (2 ^ 52) \<le> q / u" using q(1) u unfolding e52 by (simp add: pos_le_divide_eq)
  from py_round_mono [OF this] have lo: "2 ^ 52 \<le> py_round (q / u)"
    by (simp only: py_round_of_int)
  have "q / u \<le> of_int (2 ^ 53)" using q(2) u unfolding e53 by (simp add: pos_divide_le_eq)
  from py_round_mono [OF this] have hi: "py_round (q / u) \<le> 2 ^ 53"
    by (simp only: py_round_of_int)
  have fl: "fl q = of_int (py_round (q / u)) * u"
    using assms by (simp add: fl_def u_def e_def Let_def)
  have "of_int (2 ^ 52) * u \<le> of_int (py_round (q / u)) * u"
  proof (rule mult_right_mono)
    show "(of_int (2 ^ 52) :: rat) \<le> of_int (py_round (q / u))" using lo by (simp only: of_int_le_iff)
    show "0 \<le> u" using u by simp
  qed
  thus "2 powi binade q \<le> fl q" unfolding fl e52 [symmetric] e_def .
  have "of_int (py_round (q / u)) * u \<le> of_int (2 ^ 53) * u"
  proof (rule mult_right_mono)
    show "(of_int (py_round (q / u)) :: rat) \<le> of_int (2 ^ 53)" using hi by (simp only: of_int_le_iff)
    show "0 \<le> u" using u by simp
  qed
  thus "fl q \<le> 2 powi (binade q + 1)" unfolding fl e53 [symmetric] e_def .
qed

lemma fl_pos: "0 < q \<Longrightarrow> 0 < fl q"
  using fl_bounds(1) [of q] powi_pos [of "binade q"] by linarith

lemma fl_mono_pos:
  assumes "0 < x" and "x \<le> y"
  shows "fl x \<le> fl y"
proof -
  have y: "0 < y" using assms by linarith
  have xbd: "2 powi binade x \<le> x" "x < 2 powi (binade x + 1)"
    using binade_bounds [of x] assms(1) by simp_all
  have ybd: "2 powi binade y \<le> y" "y < 2 powi (binade y + 1)"
    using binade_bounds [of y] y by simp_all
  have "binade x < binade y + 1"
    by (rule powi_exp_less [of _ x]) (use xbd ybd assms in linarith)+
  hence "binade x = binade y \<or> binade x + 1 \<le> binade y" by linarith
  thus ?thesis
  proof
    assume eq: "binade x = binade y"
    have "x / 2 powi (binade y - 52) \<le> y / 2 powi (binade y - 52)"
      using assms(2) powi_pos [of "binade y - 52"] by (simp add: divide_right_mono)
    from py_round_mono [OF this] powi_pos [of "binade y - 52"]
    show ?thesis using assms(1) y
      by (simp add: fl_def eq Let_def mult_right_mono)
  next
    assume "binade x + 1 \<le> binade y"
    hence "(2::rat) powi (binade x + 1) \<le> 2 powi binade y"
      by (intro power_int_increasing) auto
    thus ?thesis using fl_bounds(2) [OF assms(1)] fl_bounds(1) [OF y] by linarith
  qed
qed

lemma fl_mono:
  assumes "x \<le> y"
  shows "fl x \<le> fl y"
proof -
  consider "0 < x" | "x = 0" | "x < 0" "y < 0" | "x < 0" "0 \<le> y" by linarith
  thus ?thesis
  proof cases
    case 1
    thus ?thesis using assms by (rule fl_mono_pos)
  next
    case 2
    thus ?thesis using assms fl_pos [of y] by (cases "y = 0") (auto simp: fl_def)
  next
    case 3
    hence "fl (- y) \<le> fl (- x)" using assms by (intro fl_mono_pos) auto
    thus ?thesis by (simp add: fl_uminus)
  next
    case 4
    have "0 < fl (- x)" using 4(1) by (intro fl_pos) simp
    hence "fl x < 0" by (simp add: fl_uminus)
    moreover have "0 \<le> fl y" using 4(2) fl_pos [of y] by (cases "y = 0") (auto simp: fl_def)
    ultimately show ?thesis by linarith
  qed
qed

lemma py_round1_mono: "x \<le> y \<Longrightarrow> py_round1 x \<le> py_round1 y"
  unfolding py_round1_def
  by (intro fl_mono divide_right_mono) (simp_all add: py_round_mono)

subsection \<open>The loop\<close>

lemma error_fallback_admitted: "error_fallback j = Some j' \<Longrightarrow> admitted_by_fallback j'"
  by (auto simp: error_fallback_def admitted_by_fallback_def split: if_splits)

lemma passed_threshold_bound:
  assumes "passed_threshold cfg j"
  shows "reaches_rounded_minimum cfg j"
proof (cases "min_combined_score cfg")
  case (Finite q)
  from assms obtain r m x where x: "combined_float r m = Inr x" "float_ge x (min_combined_score cfg)"
      "combined_score j = Some (py_round1 x)"
    by (auto simp: passed_threshold_def split: option.splits sum.splits)
  from x(2) Finite have "q \<le> x" by simp
  hence "py_round1 q \<le> py_round1 x" by (rule py_round1_mono)
  thus ?thesis using Finite x(3) by (simp add: reaches_rounded_minimum_def)
qed (simp_all add: reaches_rounded_minimum_def)

lemma process_job_output:
  assumes "process_job scorer resume_matcher cfg j = (Some j', cs)"
  shows "passed_threshold cfg j' \<or> admitted_by_fallback j'"
  using assms
  by (auto simp: process_job_def Let_def passed_threshold_def
      split: sum.splits if_splits dest: error_fallback_admitted)

lemma process_job_calls:
  assumes "process_job scorer resume_matcher cfg j = (out, cs)" and "c \<in> set cs"
  shows "c = j \<and> (\<exists>r. scorer j = Inr r \<and> min_relevance_score cfg \<le> r)"
  using assms
  by (auto simp: process_job_def Let_def split: sum.splits if_splits)

lemma process_job_below:
  assumes "scorer j = Inr r" and "r < min_relevance_score cfg"
  shows "process_job scorer resume_matcher cfg j = (None, [])"
  using assms by (simp add: process_job_def)

lemma process_job_cong:
  assumes "\<And>r. scorer j = Inr r \<Longrightarrow> min_relevance_score cfg \<le> r \<Longrightarrow> m1 j = m2 j"
  shows "process_job scorer m1 cfg j = process_job scorer m2 cfg j"
  using assms by (auto simp: process_job_def Let_def split: sum.splits)

lemma process_loop_fst:
  "j' \<in> set (fst (process_loop scorer resume_matcher cfg jobs processed_jobs calls)) \<Longrightarrow>
     j' \<in> set processed_jobs \<or> (\<exists>j \<in> set jobs. \<exists>cs. process_job scorer resume_matcher cfg j = (Some j', cs))"
proof (induction jobs arbitrary: processed_jobs calls)
  case Nil
  then show ?case by simp
next
  case (Cons j js)
  obtain out cs where pj: "process_job scorer resume_matcher cfg j = (out, cs)"
    by (cases "process_job scorer resume_matcher cfg j")
  show ?case
  proof (cases out)
    case None
    with Cons.prems pj
    have "j' \<in> set (fst (process_loop scorer resume_matcher cfg js processed_jobs (calls @ cs)))"
      by simp
    from Cons.IH [OF this] show ?thesis by auto
  next
    case (Some k)
    with Cons.prems pj
    have "j' \<in> set (fst (process_loop scorer resume_matcher cfg js (processed_jobs @ [k]) (calls @ cs)))"
      by simp
    from Cons.IH [OF this] pj Some show ?thesis by auto
  qed
qed

lemma process_loop_snd:
  "c \<in> set (snd (process_loop scorer resume_matcher cfg jobs processed_jobs calls)) \<Longrightarrow>
     c \<in> set calls \<or> (\<exists>j \<in> set jobs. \<exists>out cs. process_job scorer resume_matcher cfg j = (out, cs) \<and> c \<in> set cs)"
proof (induction jobs arbitrary: processed_jobs calls)
  case Nil
  then show ?case by simp
next
  case (Cons j js)
  obtain out cs where pj: "process_job scorer resume_matcher cfg j = (out, cs)"
    by (cases "process_job scorer resume_matcher cfg j")
  show ?case
  proof (cases out)
    case None
    with Cons.prems pj
    have "c \<in> set (snd (process_loop scorer resume_matcher cfg js processed_jobs (calls @ cs)))"
      by simp
    from Cons.IH [OF this] pj show ?thesis by auto
  next
    case (Some k)
    with Cons.prems pj
    have "c \<in> set (snd (process_loop scorer resume_matcher cfg js (processed_jobs @ [k]) (calls @ cs)))"
      by simp
    from Cons.IH [OF this] pj show ?thesis by auto
  qed
qed

lemma process_loop_cong:
  assumes "\<And>j r. j \<in> set jobs \<Longrightarrow> scorer j = Inr r \<Longrightarrow> min_relevance_score cfg \<le> r \<Longrightarrow> m1 j = m2 j"
  shows "process_loop scorer m1 cfg jobs processed_jobs calls
       = process_loop scorer m2 cfg jobs processed_jobs calls"
  using assms
proof (induction jobs arbitrary: processed_jobs calls)
  case Nil
  then show ?case by simp
next
  case (Cons j js)
  have "process_job scorer m1 cfg j = process_job scorer m2 cfg j"
    by (rule process_job_cong) (simp add: Cons.prems)
  moreover have "process_loop scorer m1 cfg js p c = process_loop scorer m2 cfg js p c" for p c
    by (rule Cons.IH) (simp add: Cons.prems)
  ultimately show ?case by (simp split: prod.splits option.splits)
qed

lemma process_loop_skip:
  assumes "process_job scorer resume_matcher cfg j = (None, [])"
  shows "process_loop scorer resume_matcher cfg (pre @ j # post) processed_jobs calls
       = process_loop scorer resume_matcher cfg (pre @ post) processed_jobs calls"
  using assms
  by (induction pre arbitrary: processed_jobs calls) (auto split: prod.splits option.splits)

text \<open>
  C5, amended. Every posting in the output of \<open>process_jobs_with_ai\<close> either passed the test
  of the loop, or was admitted by the \<open>except\<close> branch with the fixed scores 7, 5 and 6, which
  are not compared with the minimum. A posting that passed the test has relevance and
  match scores whose combined score \<open>relevance * 0.4 + match * 0.6\<close>, as computed in floating
  point, is at least the configured minimum; the combined score it stores is that float
  rounded to one decimal, which is at least the minimum rounded to one decimal, and can be
  smaller than a minimum that has more decimals.
\<close>

theorem process_jobs_with_ai_threshold:
  "\<forall>j \<in> set (process_jobs_with_ai scorer resume_matcher cfg jobs).
     (passed_threshold cfg j \<and> reaches_rounded_minimum cfg j) \<or> admitted_by_fallback j"
proof
  fix j'
  assume "j' \<in> set (process_jobs_with_ai scorer resume_matcher cfg jobs)"
  hence "j' \<in> set (fst (process_loop scorer resume_matcher cfg jobs [] []))"
    by (simp add: process_jobs_with_ai_def)
  from process_loop_fst [OF this]
  obtain j cs where "process_job scorer resume_matcher cfg j = (Some j', cs)" by auto
  hence "passed_threshold cfg j' \<or> admitted_by_fallback j'"
    by (rule process_job_output)
  thus "(passed_threshold cfg j' \<and> reaches_rounded_minimum cfg j') \<or> admitted_by_fallback j'"
    using passed_threshold_bound by blast
qed

lemma run_default:
  "map combined_score (process_jobs_with_ai scorer_keywords matcher_eight config_default
     [job_marketing, job_backend, job_ml]) = [Some (fl (42 / 5)), Some (fl (34 / 5))]"
  by code_simp

theorem process_jobs_with_ai_threshold_witness:
  "map combined_score (process_jobs_with_ai scorer_keywords matcher_eight config_default
     [job_marketing, job_backend, job_ml]) = [Some (fl (42 / 5)), Some (fl (34 / 5))]
   \<and> list_all (\<lambda>j. (passed_threshold config_default j \<and> reaches_rounded_minimum config_default j)
                  \<or> admitted_by_fallback j)
       (process_jobs_with_ai scorer_keywords matcher_eight config_default
          [job_marketing, job_backend, job_ml])"
  using process_jobs_with_ai_threshold
    [of scorer_keywords matcher_eight config_default "[job_marketing, job_backend, job_ml]"]
    run_default
  by (simp add: list_all_iff)

text \<open>
  C5 as stated fails: with a minimum combined score of 7, a posting whose scoring raises and
  whose title contains \<open>ml\<close> followed by a space is returned with the combined score 6.
\<close>

theorem process_jobs_with_ai_fallback_below_minimum:
  "map combined_score
     (process_jobs_with_ai scorer_word_answer matcher_eight config_strict [job_ml]) = [Some 6]
   \<and> scorer_word_answer job_ml = Inl ValueError
   \<and> min_combined_score config_strict = Finite 7"
  by code_simp

text \<open>
  Two effects of the floating-point computation. With the scores 9 and 6 the float is the
  one just below 7.2, and a minimum of 7.2 rejects the posting. With the scores 7 and 5 the
  float is the one just above 5.8; a minimum equal to that float admits the posting, which
  stores 5.8, a combined score below the minimum, without being a fallback admission.
\<close>

lemma float_sum_below_decimal:
  "combined_float 9 6 = Inr (fl (36 / 5) - 1 / 2 ^ 50)
   \<and> process_jobs_with_ai scorer_keywords (matcher_answering 6) config_7_2 [job_ml] = []"
  by code_simp

lemma stored_score_below_minimum:
  "combined_float 7 5 = Inr (fl (29 / 5) + 1 / 2 ^ 50)
   \<and> map combined_score
       (process_jobs_with_ai scorer_keywords (matcher_answering 5) config_above_5_8 [job_data_eng])
     = [Some (fl (29 / 5))]
   \<and> map admitted_by_fallback
       (process_jobs_with_ai scorer_keywords (matcher_answering 5) config_above_5_8 [job_data_eng])
     = [False]
   \<and> fl (29 / 5) < fl (29 / 5) + 1 / 2 ^ 50"
  by code_simp

text \<open>
  C6. A posting whose relevance score is below the configured minimum is discarded in its
  turn of the loop without a call of \<open>match_job\<close>; \<open>match_job\<close> is called only with postings
  whose relevance score reaches the minimum; and the result of the stage is the same for two
  matchers that agree on those postings, so it does not depend on what the matcher would
  answer for a discarded posting.
\<close>

theorem below_threshold_skips_matcher:
  "(\<forall>j r. scorer j = Inr r \<and> r < min_relevance_score cfg \<longrightarrow>
       process_job scorer resume_matcher cfg j = (None, [])
       \<and> j \<notin> set (match_job_calls scorer resume_matcher cfg jobs)
       \<and> (\<forall>pre post. process_jobs_with_ai scorer resume_matcher cfg (pre @ j # post)
                      = process_jobs_with_ai scorer resume_matcher cfg (pre @ post)))
   \<and> ((\<forall>j \<in> set jobs. \<forall>r. scorer j = Inr r \<and> min_relevance_score cfg \<le> r
          \<longrightarrow> resume_matcher j = resume_matcher' j)
       \<longrightarrow> process_jobs_with_ai scorer resume_matcher cfg jobs
         = process_jobs_with_ai scorer resume_matcher' cfg jobs)"
proof (intro conjI allI impI)
  fix j r
  assume a: "scorer j = Inr r \<and> r < min_relevance_score cfg"
  thus below: "process_job scorer resume_matcher cfg j = (None, [])"
    by (simp add: process_job_below)
  show "j \<notin> set (match_job_calls scorer resume_matcher cfg jobs)"
  proof
    assume "j \<in> set (match_job_calls scorer resume_matcher cfg jobs)"
    hence "j \<in> set (snd (process_loop scorer resume_matcher cfg jobs [] []))"
      by (simp add: match_job_calls_def)
    from process_loop_snd [OF this]
    obtain k out cs where "process_job scorer resume_matcher cfg k = (out, cs)" and "j \<in> set cs"
      by auto
    from process_job_calls [OF this]
    have "\<exists>r. scorer j = Inr r \<and> min_relevance_score cfg \<le> r" by auto
    with a show False by auto
  qed
  fix pre post
  show "process_jobs_with_ai scorer resume_matcher cfg (pre @ j # post)
      = process_jobs_with_ai scorer resume_matcher cfg (pre @ post)"
    by (simp add: process_jobs_with_ai_def process_loop_skip [OF below])
next
  assume "\<forall>j \<in> set jobs. \<forall>r. scorer j = Inr r \<and> min_relevance_score cfg \<le> r
          \<longrightarrow> resume_matcher j = resume_matcher' j"
  hence "process_loop scorer resume_matcher cfg jobs [] []
       = process_loop scorer resume_matcher' cfg jobs [] []"
    by (intro process_loop_cong) auto
  thus "process_jobs_with_ai scorer resume_matcher cfg jobs
      = process_jobs_with_ai scorer resume_matcher' cfg jobs"
    by (simp add: process_jobs_with_ai_def)
qed

lemma scorer_keywords_marketing: "scorer_keywords job_marketing = Inr 3"
  by code_simp

lemma calls_default:
  "match_job_calls scorer_keywords matcher_eight config_default
     [job_marketing, job_backend, job_ml] = [job_backend, job_ml]"
  by code_simp

theorem below_threshold_skips_matcher_witness:
  "scorer_keywords job_marketing = Inr 3
   \<and> 3 < min_relevance_score config_default
   \<and> process_job scorer_keywords matcher_eight config_default job_marketing = (None, [])
   \<and> match_job_calls scorer_keywords matcher_eight config_default
        [job_marketing, job_backend, job_ml] = [job_backend, job_ml]
   \<and> process_jobs_with_ai scorer_keywords matcher_eight config_default
        [job_marketing, job_backend, job_ml]
     = process_jobs_with_ai scorer_keywords (matcher_raising_on job_marketing) config_default
        [job_marketing, job_backend, job_ml]"
proof -
  have lt: "3 < min_relevance_score config_default" by (simp add: config_default_def)
  have agree: "\<forall>j \<in> set [job_marketing, job_backend, job_ml]. \<forall>r.
      scorer_keywords j = Inr r \<and> min_relevance_score config_default \<le> r
        \<longrightarrow> matcher_eight j = matcher_raising_on job_marketing j"
    using scorer_keywords_marketing lt by (auto simp: matcher_raising_on_def)
  from below_threshold_skips_matcher
    [of scorer_keywords config_default matcher_eight "[job_marketing, job_backend, job_ml]"
        "matcher_raising_on job_marketing"]
    scorer_keywords_marketing lt agree calls_default
  show ?thesis by blast
qed

section \<open>Local storage: proofs\<close>

lemma update_analytics_keeps:
  "json_jobs (update_analytics d s j) = json_jobs s \<and> index (update_analytics d s j) = index s"
  by (simp add: update_analytics_def Let_def)

lemma append_job_existing:
  "job_exists s (row_title row_data) (row_company row_data) \<Longrightarrow>
     append_job clk s row_data job_dict = (False, s)"
  by (simp add: append_job_def)

lemma append_job_new:
  assumes "\<not> job_exists s (row_title row_data) (row_company row_data)"
  shows "fst (append_job clk s row_data job_dict) = True"
    and "index (snd (append_job clk s row_data job_dict))
           (normalize_key (row_title row_data) (row_company row_data)) = Some (now_index clk)"
    and "jd \<noteq> empty_job \<Longrightarrow>
           json_jobs (snd (append_job clk s row_data (Some jd)))
             = json_jobs s @ [jd\<lparr>added_at := Some (now_added clk)\<rparr>]"
  using assms
  by (simp_all add: append_job_def Let_def update_analytics_keeps split: option.splits)

text \<open>
  C1. When the key of the title and the company is not yet in the index and the posting's
  dictionary is not empty, the first call of \<open>append_job\<close> returns \<open>True\<close>, appends the posting
  to the stored list, so that the job count grows by one, and enters the key in the index;
  a second call with the same title and company, at any later time and with any row and
  dictionary, returns \<open>False\<close> and leaves the store as it is.
\<close>

theorem append_job_idempotent:
  assumes "\<not> job_exists s (row_title row_data) (row_company row_data)"
    and "jd \<noteq> empty_job"
    and "row_title row_data' = row_title row_data"
    and "row_company row_data' = row_company row_data"
  shows "fst (append_job clk s row_data (Some jd)) = True
       \<and> json_jobs (snd (append_job clk s row_data (Some jd)))
           = json_jobs s @ [jd\<lparr>added_at := Some (now_added clk)\<rparr>]
       \<and> get_job_count (snd (append_job clk s row_data (Some jd))) = get_job_count s + 1
       \<and> append_job clk' (snd (append_job clk s row_data (Some jd))) row_data' job_dict'
           = (False, snd (append_job clk s row_data (Some jd)))"
proof -
  let ?s1 = "snd (append_job clk s row_data (Some jd))"
  have first: "fst (append_job clk s row_data (Some jd)) = True"
    using assms(1) by (rule append_job_new(1))
  have jobs: "json_jobs ?s1 = json_jobs s @ [jd\<lparr>added_at := Some (now_added clk)\<rparr>]"
    using assms(1,2) by (rule append_job_new(3))
  hence count: "get_job_count ?s1 = get_job_count s + 1"
    by (simp add: get_job_count_def)
  have "index ?s1 (normalize_key (row_title row_data) (row_company row_data)) = Some (now_index clk)"
    using assms(1) by (rule append_job_new(2))
  hence "job_exists ?s1 (row_title row_data') (row_company row_data')"
    using assms(3,4) by (simp add: job_exists_def)
  hence second: "append_job clk' ?s1 row_data' job_dict' = (False, ?s1)"
    by (rule append_job_existing)
  from first jobs count second show ?thesis by blast
qed

theorem append_job_idempotent_witness:
  "fst (append_job clock_first empty_store row_ml (Some job_ml)) = True
   \<and> get_job_count empty_store = 0
   \<and> get_job_count (snd (append_job clock_first empty_store row_ml (Some job_ml))) = 1
   \<and> fst (append_job clock_second (snd (append_job clock_first empty_store row_ml (Some job_ml)))
           (row_ml @ replicate 10 []) (Some (job_ml\<lparr>added_at := Some (now_added clock_first)\<rparr>)))
       = False
   \<and> get_job_count
        (snd (append_job clock_second (snd (append_job clock_first empty_store row_ml (Some job_ml)))
           (row_ml @ replicate 10 []) (Some (job_ml\<lparr>added_at := Some (now_added clock_first)\<rparr>))))
       = 1"
proof -
  have fresh: "\<not> job_exists empty_store (row_title row_ml) (row_company row_ml)"
    by (simp add: job_exists_def empty_store_def)
  have ne: "job_ml \<noteq> empty_job"
    by (simp add: job_ml_def empty_job_def)
  have t: "row_title (row_ml @ replicate 10 []) = row_title row_ml"
    by (simp add: row_title_def row_ml_def)
  have c: "row_company (row_ml @ replicate 10 []) = row_company row_ml"
    by (simp add: row_company_def row_ml_def)
  have zero: "get_job_count empty_store = 0"
    by (simp add: get_job_count_def empty_store_def)
  from append_job_idempotent [OF fresh ne t c, of clock_first clock_second
      "Some (job_ml\<lparr>added_at := Some (now_added clock_first)\<rparr>)"] zero
  show ?thesis by simp
qed

end
